theory Spec2Isabelle
  imports Complex_Main
begin

section \<open>Data model\<close>

text \<open>
  The transcript service of \<^verbatim>\<open>src/main.py\<close>, embedded as HOL functions. Python floats
  (timestamps, segment starts and durations, delays) are modelled as exact reals:
  rounding of the binary representation is outside the model. Everything the program
  does to the outside (reading the clock, sleeping, calling the caption library or a
  speech-to-text backend) is a function on an explicit world state of an arbitrary
  type \<open>'w\<close>; the function returns its answer together with the world after the call.
\<close>

text \<open>
  A transcript segment \<^verbatim>\<open>{"text": ..., "start": ..., "duration": ...}\<close>. Every producer
  in the source stores a float under \<^verbatim>\<open>start\<close>; the duration may be missing or not
  convertible by \<^verbatim>\<open>float()\<close>, which is \<open>None\<close> here.
\<close>

record segment =
  "text" :: string
  start :: real
  duration :: "real option"

type_synonym key = "string \<times> string \<times> bool"

text \<open>
  The two module-level dictionaries \<^verbatim>\<open>_CACHE\<close> and \<^verbatim>\<open>_FAIL_CACHE\<close> and the world
  outside the process.
\<close>

record 'w state =
  cache :: "key \<rightharpoonup> real \<times> segment list"
  fail_cache :: "key \<rightharpoonup> real \<times> int"
  world :: 'w

type_synonym 'w clock = "'w \<Rightarrow> real \<times> 'w"

definition CACHE_TTL_SECONDS :: real where
  "CACHE_TTL_SECONDS = 60 * 30"

definition FAIL_TTL_SECONDS_DEFAULT :: int where
  "FAIL_TTL_SECONDS_DEFAULT = 60 * 5"

section \<open>Success cache and failure cache\<close>

text \<open>
  \<^verbatim>\<open>cache_get\<close>: the entry is a pair, hence truthy whenever it exists, so
  \<^verbatim>\<open>if not entry\<close> is the test for a missing key. The clock is read only when the
  key is present.
\<close>

definition cache_get ::
  "'w clock \<Rightarrow> string \<Rightarrow> string \<Rightarrow> bool \<Rightarrow> 'w state \<Rightarrow> segment list option \<times> 'w state" where
  "cache_get time video_id lang disable_translate s =
     (let key = (video_id, lang, disable_translate)
      in case cache s key of
           None \<Rightarrow> (None, s)
         | Some (ts, data) \<Rightarrow>
             (let (now, w) = time (world s)
              in if now - ts > CACHE_TTL_SECONDS
                 then (None, s\<lparr>cache := (cache s)(key := None), world := w\<rparr>)
                 else (Some data, s\<lparr>world := w\<rparr>)))"

definition cache_set ::
  "'w clock \<Rightarrow> string \<Rightarrow> string \<Rightarrow> bool \<Rightarrow> segment list \<Rightarrow> 'w state \<Rightarrow> 'w state" where
  "cache_set time video_id lang disable_translate data s =
     (let key = (video_id, lang, disable_translate);
          (now, w) = time (world s)
      in s\<lparr>cache := (cache s)(key \<mapsto> (now, data)), world := w\<rparr>)"

text \<open>Python's \<^verbatim>\<open>int(x)\<close> on a float truncates towards zero.\<close>

definition py_int :: "real \<Rightarrow> int" where
  "py_int x = (if 0 \<le> x then \<lfloor>x\<rfloor> else \<lceil>x\<rceil>)"

text \<open>
  \<^verbatim>\<open>fail_cache_get\<close> calls \<^verbatim>\<open>time.time()\<close> twice: once for the expiry test and,
  when the entry is still valid, once more for the remaining time.
\<close>

definition fail_cache_get ::
  "'w clock \<Rightarrow> string \<Rightarrow> string \<Rightarrow> bool \<Rightarrow> 'w state \<Rightarrow> int option \<times> 'w state" where
  "fail_cache_get time video_id lang disable_translate s =
     (let key = (video_id, lang, disable_translate)
      in case fail_cache s key of
           None \<Rightarrow> (None, s)
         | Some (ts, retry_sec) \<Rightarrow>
             (let (now, w) = time (world s)
              in if now - ts > of_int retry_sec
                 then (None, s\<lparr>fail_cache := (fail_cache s)(key := None), world := w\<rparr>)
                 else (let (now2, w2) = time w;
                           remaining = max 1 (py_int (of_int retry_sec - (now2 - ts)))
                       in (Some remaining, s\<lparr>world := w2\<rparr>))))"

text \<open>
  \<^verbatim>\<open>int(retry_after_seconds or FAIL_TTL_SECONDS_DEFAULT)\<close>: \<^verbatim>\<open>None\<close> and \<^verbatim>\<open>0\<close> are
  both falsy and select the default.
\<close>

definition fail_cache_set ::
  "'w clock \<Rightarrow> string \<Rightarrow> string \<Rightarrow> bool \<Rightarrow> int option \<Rightarrow> 'w state \<Rightarrow> 'w state" where
  "fail_cache_set time video_id lang disable_translate retry_after_seconds s =
     (let key = (video_id, lang, disable_translate);
          (now, w) = time (world s);
          retry = (case retry_after_seconds of
                     None \<Rightarrow> FAIL_TTL_SECONDS_DEFAULT
                   | Some c \<Rightarrow> if c = 0 then FAIL_TTL_SECONDS_DEFAULT else c)
      in s\<lparr>fail_cache := (fail_cache s)(key \<mapsto> (now, retry)), world := w\<rparr>)"

text \<open>
  A clock for concrete runs: the world is the list of the readings still to come.
\<close>

fun list_clock :: "real list clock" where
  "list_clock [] = (0, [])"
| "list_clock (t # ts) = (t, ts)"

definition empty_state :: "'w \<Rightarrow> 'w state" where
  "empty_state w = \<lparr>cache = Map.empty, fail_cache = Map.empty, world = w\<rparr>"

section \<open>Duration normalizer\<close>

text \<open>
  \<^verbatim>\<open>round(x, 3)\<close> on exact reals: to the nearest multiple of one thousandth, a tie to
  the even one.
\<close>

definition py_round3 :: "real \<Rightarrow> real" where
  "py_round3 x =
     (let y = x * 1000; f = \<lfloor>y\<rfloor>; d = y - of_int f
      in (if d < 1 / 2 then of_int f
          else if 1 / 2 < d then of_int f + 1
          else if even f then of_int f else of_int f + 1) / 1000)"

text \<open>
  \<^verbatim>\<open>needs_fill\<close>: \<^verbatim>\<open>float(dur) <= 0\<close>, and \<^verbatim>\<open>True\<close> when the conversion raises.
\<close>

definition needs_fill :: "real option \<Rightarrow> bool" where
  "needs_fill dur = (case dur of None \<Rightarrow> True | Some d \<Rightarrow> d \<le> 0)"

text \<open>The value \<^verbatim>\<open>filled\<close> computed for index \<open>i\<close> of the loop.\<close>

definition filled :: "segment list \<Rightarrow> nat \<Rightarrow> real" where
  "filled segments i =
     (let n = length segments; st = start (segments ! i)
      in if int i < int n - 1
         then max 0 (py_round3 (start (segments ! (i + 1)) - st))
         else if 2 \<le> n
              then max 0 (py_round3 (st - start (segments ! (i - 1))))
              else 0)"

text \<open>One iteration of the loop body: the new segment appended to \<^verbatim>\<open>normalized\<close>.\<close>

definition normalize_seg :: "segment list \<Rightarrow> nat \<Rightarrow> segment" where
  "normalize_seg segments i =
     (let seg = segments ! i; dur = duration seg
      in seg\<lparr>start := start seg,
             duration := (if needs_fill dur then Some (filled segments i) else dur)\<rparr>)"

text \<open>
  \<^verbatim>\<open>_normalize_durations\<close>: the loop runs over \<^verbatim>\<open>enumerate(segments)\<close>, so index \<open>i\<close>
  ranges over \<open>[0..<n]\<close> and every read \<^verbatim>\<open>segments[i + 1]\<close>, \<^verbatim>\<open>segments[i - 1]\<close> of
  \<open>filled\<close> is in range.
\<close>

definition normalize_durations :: "segment list \<Rightarrow> segment list" where
  "normalize_durations segments =
     (if segments = [] then segments
      else map (normalize_seg segments) [0..<length segments])"

section \<open>Exceptions and message classification\<close>

text \<open>
  A raised exception: its class, as far as an \<^verbatim>\<open>except\<close> clause of the source tells
  classes apart, and the text \<^verbatim>\<open>str(e)\<close>. Only subclasses of \<^verbatim>\<open>Exception\<close> are
  modelled.
\<close>

datatype exn_kind = TranscriptsDisabled | NoTranscriptFound | ValueError | OtherException

datatype exn = Exn (kind: exn_kind) (msg: string)

text \<open>
  \<^verbatim>\<open>str.lower()\<close> and the substring test \<^verbatim>\<open>needle in s\<close>, on strings of single-byte
  characters: the letters \<open>A\<close> to \<open>Z\<close> are mapped, every other character is kept.
\<close>

definition lower_char :: "char \<Rightarrow> char" where
  "lower_char c =
     (case map_of (zip ''ABCDEFGHIJKLMNOPQRSTUVWXYZ'' ''abcdefghijklmnopqrstuvwxyz'') c of
        None \<Rightarrow> c
      | Some l \<Rightarrow> l)"

definition lower :: "string \<Rightarrow> string" where
  "lower s = map lower_char s"

fun starts_with :: "string \<Rightarrow> string \<Rightarrow> bool" where
  "starts_with [] s = True"
| "starts_with (c # cs) [] = False"
| "starts_with (c # cs) (d # ds) = (c = d \<and> starts_with cs ds)"

fun contains :: "string \<Rightarrow> string \<Rightarrow> bool" where
  "contains needle [] = (needle = [])"
| "contains needle (c # cs) = (starts_with needle (c # cs) \<or> contains needle cs)"

text \<open>The two flags computed in the handler of \<^verbatim>\<open>fetch_with_retry\<close> from the lowered message.\<close>

definition is_rate_limit :: "string \<Rightarrow> bool" where
  "is_rate_limit m = (contains ''429'' m \<or> contains ''too many requests'' m)"

definition is_empty_xml :: "string \<Rightarrow> bool" where
  "is_empty_xml m =
     (contains ''no element found'' m \<or> contains ''empty transcript'' m \<or> contains ''empty'' m)"

definition is_transient :: "exn \<Rightarrow> bool" where
  "is_transient e = (let m = lower (msg e) in is_rate_limit m \<or> is_empty_xml m)"

section \<open>Retry executor\<close>

text \<open>
  What a retry does to the world between two attempts: \<^verbatim>\<open>random.uniform(0.0, 0.6)\<close>
  and \<^verbatim>\<open>time.sleep(delay)\<close>.
\<close>

record 'w pause_env =
  uniform :: "'w \<Rightarrow> real \<times> 'w"
  sleep :: "real \<Rightarrow> 'w \<Rightarrow> 'w"

text \<open>
  A zero-argument operation: called in a world, it raises or returns a list, and leaves
  a world behind.
\<close>

type_synonym ('w, 'a) fetch_call = "'w \<Rightarrow> (exn + 'a list) \<times> 'w"

text \<open>
  The exception that reaches the \<^verbatim>\<open>except\<close> clause of one attempt, if any: the one
  the operation raised, or the \<^verbatim>\<open>ValueError("empty transcript data")\<close> raised for
  falsy data.
\<close>

definition caught :: "exn + 'a list \<Rightarrow> exn option" where
  "caught r =
     (case r of
        Inl e \<Rightarrow> Some e
      | Inr data \<Rightarrow> if data = [] then Some (Exn ValueError ''empty transcript data'') else None)"

definition pause :: "'w pause_env \<Rightarrow> real \<Rightarrow> nat \<Rightarrow> 'w \<Rightarrow> 'w" where
  "pause env base_delay i w =
     (let (jitter, w1) = uniform env w;
          delay = base_delay * 2 ^ i + jitter
      in sleep env delay w1)"

text \<open>
  The loop \<^verbatim>\<open>for i in range(attempts)\<close>: \<open>k\<close> iterations are left and \<open>i\<close> is the
  loop variable. When the range is exhausted without a return the function returns
  \<^verbatim>\<open>None\<close>; that happens only for \<open>attempts \<le> 0\<close>, since the last iteration re-raises.
\<close>

fun retry_loop ::
  "'w pause_env \<Rightarrow> ('w, 'a) fetch_call \<Rightarrow> int \<Rightarrow> real \<Rightarrow> nat \<Rightarrow> nat \<Rightarrow> 'w
     \<Rightarrow> (exn + 'a list option) \<times> 'w" where
  "retry_loop env fetch_call attempts base_delay 0 i w = (Inr None, w)"
| "retry_loop env fetch_call attempts base_delay (Suc k) i w =
     (let (r, w1) = fetch_call w
      in case caught r of
           None \<Rightarrow> (Inr (Some (projr r)), w1)
         | Some e \<Rightarrow>
             if int i < attempts - 1 \<and> is_transient e
             then retry_loop env fetch_call attempts base_delay k (Suc i)
                    (pause env base_delay i w1)
             else (Inl e, w1))"

definition fetch_with_retry ::
  "'w pause_env \<Rightarrow> ('w, 'a) fetch_call \<Rightarrow> int \<Rightarrow> real \<Rightarrow> 'w \<Rightarrow> (exn + 'a list option) \<times> 'w" where
  "fetch_with_retry env fetch_call attempts base_delay w =
     retry_loop env fetch_call attempts base_delay (nat attempts) 0 w"

text \<open>
  The run of an operation under the retry schedule, for stating what it does on each
  attempt: the world in which attempt \<open>i\<close> (counted from 0) starts when every earlier
  attempt was followed by a pause, and the outcome of that attempt.
\<close>

fun world_before :: "'w pause_env \<Rightarrow> ('w, 'a) fetch_call \<Rightarrow> real \<Rightarrow> 'w \<Rightarrow> nat \<Rightarrow> 'w" where
  "world_before env fetch_call base_delay w 0 = w"
| "world_before env fetch_call base_delay w (Suc i) =
     pause env base_delay i (snd (fetch_call (world_before env fetch_call base_delay w i)))"

definition attempt ::
  "'w pause_env \<Rightarrow> ('w, 'a) fetch_call \<Rightarrow> real \<Rightarrow> 'w \<Rightarrow> nat \<Rightarrow> (exn + 'a list) \<times> 'w" where
  "attempt env fetch_call base_delay w i =
     fetch_call (world_before env fetch_call base_delay w i)"

definition fails_transiently :: "exn + 'a list \<Rightarrow> bool" where
  "fails_transiently r = (case caught r of None \<Rightarrow> False | Some e \<Rightarrow> is_transient e)"

text \<open>
  An operation given by a script: the world is the number of calls made so far, and
  call number \<open>n\<close> has the outcome \<open>script n\<close>. Pauses leave the count alone.
\<close>

definition scripted :: "(nat \<Rightarrow> exn + 'a list) \<Rightarrow> (nat, 'a) fetch_call" where
  "scripted script n = (script n, Suc n)"

definition no_pause :: "'w pause_env" where
  "no_pause = \<lparr>uniform = (\<lambda>w. (0, w)), sleep = (\<lambda>delay w. w)\<rparr>"

section \<open>Caption source and transcript source selector\<close>

text \<open>
  A track of the listing, with the attributes the selector reads, and the address the
  library fetches it from. A translated track is a track of the same class.
\<close>

record track =
  language :: string
  language_code :: string
  is_generated :: bool
  is_translatable :: bool
  url :: string

text \<open>An item of a fetched transcript, as the library delivers it.\<close>

record snippet =
  snippet_text :: string
  snippet_start :: real
  snippet_duration :: real

text \<open>
  The caption library \<^verbatim>\<open>youtube_transcript_api\<close>, which is not part of the source:
  each call is a function on the world. \<open>has_list_transcripts\<close> is what
  \<^verbatim>\<open>supports_listing()\<close> finds out about the installed library.
\<close>

record 'w caption_api =
  has_list_transcripts :: bool
  list_transcripts :: "string \<Rightarrow> 'w \<Rightarrow> (exn + track list) \<times> 'w"
  fetch :: "track \<Rightarrow> ('w, snippet) fetch_call"
  translate :: "track \<Rightarrow> string \<Rightarrow> 'w \<Rightarrow> (exn + track) \<times> 'w"
  get_transcript :: "string \<Rightarrow> string list \<Rightarrow> ('w, snippet) fetch_call"

definition supports_listing :: "'w caption_api \<Rightarrow> bool" where
  "supports_listing api = has_list_transcripts api"

text \<open>
  Modelled from the spec: the lookups \<^verbatim>\<open>find_manually_created_transcript\<close> and
  \<^verbatim>\<open>find_generated_transcript\<close> of the library's listing object, which are not in the
  source. For each requested code in turn they look for a track of the wanted kind
  with exactly that language code, and raise \<^verbatim>\<open>NoTranscriptFound\<close> when no code has one.
\<close>

fun find_transcript :: "(track \<Rightarrow> bool) \<Rightarrow> track list \<Rightarrow> string list \<Rightarrow> exn + track" where
  "find_transcript wanted list_obj [] = Inl (Exn NoTranscriptFound ''no transcript found'')"
| "find_transcript wanted list_obj (c # cs) =
     (case find (\<lambda>tr. wanted tr \<and> language_code tr = c) list_obj of
        Some tr \<Rightarrow> Inr tr
      | None \<Rightarrow> find_transcript wanted list_obj cs)"

definition find_manually_created_transcript :: "track list \<Rightarrow> string list \<Rightarrow> exn + track" where
  "find_manually_created_transcript list_obj codes =
     find_transcript (\<lambda>tr. \<not> is_generated tr) list_obj codes"

definition find_generated_transcript :: "track list \<Rightarrow> string list \<Rightarrow> exn + track" where
  "find_generated_transcript list_obj codes =
     find_transcript (\<lambda>tr. is_generated tr) list_obj codes"

text \<open>
  The projection \<^verbatim>\<open>{"text": s["text"], "start": s["start"], "duration": s["duration"]}\<close>.
\<close>

definition project :: "snippet \<Rightarrow> segment" where
  "project sn =
     \<lparr>text = snippet_text sn, start = snippet_start sn, duration = Some (snippet_duration sn)\<rparr>"

text \<open>
  The body shared by the \<^verbatim>\<open>try\<close> blocks of the tiers:
  \<^verbatim>\<open>data = fetch_with_retry(lambda: tr.fetch())\<close> with the default 5 attempts and base
  delay 1.2, then \<^verbatim>\<open>return [...]\<close>. \<open>None\<close> means that the \<^verbatim>\<open>except Exception\<close> clause
  of the block caught something and the function did not return.
\<close>

definition fetch_projected ::
  "'w pause_env \<Rightarrow> 'w caption_api \<Rightarrow> track \<Rightarrow> 'w \<Rightarrow> segment list option \<times> 'w" where
  "fetch_projected env api tr w =
     (case fetch_with_retry env (fetch api tr) 5 (6 / 5) w of
        (Inr (Some data), w1) \<Rightarrow> (Some (map project data), w1)
      | (Inr None, w1) \<Rightarrow> (None, w1)
      | (Inl e, w1) \<Rightarrow> (None, w1))"

text \<open>
  Sequencing of two stages of the cascade: the second runs only when the first did
  not return, in the world the first left.
\<close>

definition or_else ::
  "('w \<Rightarrow> 'a option \<times> 'w) \<Rightarrow> ('w \<Rightarrow> 'a option \<times> 'w) \<Rightarrow> 'w \<Rightarrow> 'a option \<times> 'w" where
  "or_else first second w =
     (case first w of
        (Some r, w1) \<Rightarrow> (Some r, w1)
      | (None, w1) \<Rightarrow> second w1)"

text \<open>
  The shape of every loop of the selector: \<^verbatim>\<open>for x in xs: try: ... return ... except
  Exception: log\<close>. The body either returns from the function (\<open>Some\<close>) or ends in
  its \<^verbatim>\<open>except\<close> clause or without a return (\<open>None\<close>), and then the loop goes on with
  the next element.
\<close>

fun first_success ::
  "('x \<Rightarrow> 'w \<Rightarrow> 'a option \<times> 'w) \<Rightarrow> 'x list \<Rightarrow> 'w \<Rightarrow> 'a option \<times> 'w" where
  "first_success body [] w = (None, w)"
| "first_success body (x # xs) w = or_else (body x) (first_success body xs) w"

text \<open>
  Tiers 1 and 3, the body of \<^verbatim>\<open>for l in preferred_langs\<close> with the lookup of the tier:
  a failed lookup and a failed fetch both end in the \<^verbatim>\<open>except\<close> clause.
\<close>

definition exact_candidate ::
  "'w pause_env \<Rightarrow> 'w caption_api \<Rightarrow> (track list \<Rightarrow> string list \<Rightarrow> exn + track) \<Rightarrow> track list
     \<Rightarrow> string \<Rightarrow> 'w \<Rightarrow> segment list option \<times> 'w" where
  "exact_candidate env api lookup list_obj l w =
     (case lookup list_obj [l] of
        Inl e \<Rightarrow> (None, w)
      | Inr tr \<Rightarrow> fetch_projected env api tr w)"

definition exact_tier ::
  "'w pause_env \<Rightarrow> 'w caption_api \<Rightarrow> (track list \<Rightarrow> string list \<Rightarrow> exn + track) \<Rightarrow> track list
     \<Rightarrow> string list \<Rightarrow> 'w \<Rightarrow> segment list option \<times> 'w" where
  "exact_tier env api lookup list_obj preferred_langs =
     first_success (exact_candidate env api lookup list_obj) preferred_langs"

text \<open>
  Tier 2, the body of \<^verbatim>\<open>for tr in list_obj\<close>. A track that is not translatable, or
  whose lowered code equals the lowered target, is passed over. When \<^verbatim>\<open>tr.translate\<close>
  raises, the outer \<^verbatim>\<open>except\<close> catches it. When the fetch of the translation fails, the
  original track is fetched through the retry wrapper; when that fails too, the
  failure is logged and the loop goes on.
\<close>

definition translate_candidate ::
  "'w pause_env \<Rightarrow> 'w caption_api \<Rightarrow> string \<Rightarrow> track \<Rightarrow> 'w \<Rightarrow> segment list option \<times> 'w" where
  "translate_candidate env api lang tr w =
     (if is_translatable tr
      then (let src_code = lower (language_code tr);
                tgt_code = lower (if lang = [] then ''en'' else lang)
            in if src_code = tgt_code
               then (None, w)
               else (case translate api tr (if lang = [] then ''en'' else lang) w of
                       (Inl e, w1) \<Rightarrow> (None, w1)
                     | (Inr t, w1) \<Rightarrow>
                         or_else (fetch_projected env api t) (fetch_projected env api tr) w1))
      else (None, w))"

definition translate_tier ::
  "'w pause_env \<Rightarrow> 'w caption_api \<Rightarrow> string \<Rightarrow> track list \<Rightarrow> 'w \<Rightarrow> segment list option \<times> 'w" where
  "translate_tier env api lang list_obj = first_success (translate_candidate env api lang) list_obj"

text \<open>
  The loops of tiers 4 and 5: the first track of the listing that passes the test of
  the loop and can be fetched.
\<close>

definition any_candidate ::
  "'w pause_env \<Rightarrow> 'w caption_api \<Rightarrow> (track \<Rightarrow> bool) \<Rightarrow> track \<Rightarrow> 'w
     \<Rightarrow> segment list option \<times> 'w" where
  "any_candidate env api wanted tr w =
     (if wanted tr then fetch_projected env api tr w else (None, w))"

definition any_tier ::
  "'w pause_env \<Rightarrow> 'w caption_api \<Rightarrow> (track \<Rightarrow> bool) \<Rightarrow> track list \<Rightarrow> 'w
     \<Rightarrow> segment list option \<times> 'w" where
  "any_tier env api wanted list_obj = first_success (any_candidate env api wanted) list_obj"

text \<open>
  Tier 6, and each round of \<^verbatim>\<open>try_get_transcript_simple\<close>: one direct call, not
  retried; its result is returned even when it is empty.
\<close>

definition direct_fetch ::
  "'w caption_api \<Rightarrow> string \<Rightarrow> string list \<Rightarrow> 'w \<Rightarrow> segment list option \<times> 'w" where
  "direct_fetch api video_id langs w =
     (case get_transcript api video_id langs w of
        (Inr data, w1) \<Rightarrow> (Some (map project data), w1)
      | (Inl e, w1) \<Rightarrow> (None, w1))"

definition try_get_transcript_simple ::
  "'w caption_api \<Rightarrow> string \<Rightarrow> string list \<Rightarrow> 'w \<Rightarrow> segment list option \<times> 'w" where
  "try_get_transcript_simple api video_id preferred_langs w =
     first_success (direct_fetch api video_id)
       [preferred_langs, [''en''], [''en-US''], [''en-GB'']] w"

text \<open>
  \<^verbatim>\<open>fetch_transcript_segments\<close>. Every statement of the function that can raise is
  inside a \<^verbatim>\<open>try\<close> whose \<^verbatim>\<open>except Exception\<close> only logs, so the function returns a list
  or \<^verbatim>\<open>None\<close> and never raises. An exception of \<^verbatim>\<open>list_transcripts\<close> reaches one of
  the two outer clauses (\<^verbatim>\<open>TranscriptsDisabled\<close>, \<^verbatim>\<open>NoTranscriptFound\<close>, or any other
  class), and both fall through to \<^verbatim>\<open>return None\<close>.
\<close>

definition fetch_transcript_segments ::
  "'w pause_env \<Rightarrow> 'w caption_api \<Rightarrow> string \<Rightarrow> string \<Rightarrow> bool \<Rightarrow> 'w
     \<Rightarrow> segment list option \<times> 'w" where
  "fetch_transcript_segments env api video_id lang disable_translate w =
     (let preferred_langs = [lang, ''en'', ''en-US'', ''en-GB'']
      in if \<not> supports_listing api
         then try_get_transcript_simple api video_id preferred_langs w
         else (case list_transcripts api video_id w of
                 (Inl e, w0) \<Rightarrow> (None, w0)
               | (Inr list_obj, w0) \<Rightarrow>
                   or_else (exact_tier env api find_manually_created_transcript list_obj
                              preferred_langs)
                  (or_else (if \<not> disable_translate
                            then translate_tier env api lang list_obj
                            else (\<lambda>w1. (None, w1)))
                  (or_else (exact_tier env api find_generated_transcript list_obj
                              preferred_langs)
                  (or_else (if lower lang = ''auto''
                            then or_else (any_tier env api (\<lambda>tr. \<not> is_generated tr) list_obj)
                                   (any_tier env api (\<lambda>tr. is_generated tr) list_obj)
                            else (\<lambda>w1. (None, w1)))
                  (or_else (any_tier env api (\<lambda>tr. True) list_obj)
                           (direct_fetch api video_id preferred_langs))))) w0))"

text \<open>A caption source for concrete runs. It leaves the world alone. Every track can be
  fetched and yields one item that carries the address of the track; the translation
  of a track exists, at the address \<open>translated\<close>, but its fetch is always rate-limited.
\<close>

definition demo_api :: "track list \<Rightarrow> 'w caption_api" where
  "demo_api trs =
     \<lparr>has_list_transcripts = True,
      list_transcripts = (\<lambda>video_id w. (Inr trs, w)),
      fetch = (\<lambda>tr w.
         (if url tr = ''translated''
          then Inl (Exn OtherException ''HTTP Error 429: Too Many Requests'')
          else Inr [\<lparr>snippet_text = url tr, snippet_start = 0, snippet_duration = 1\<rparr>], w)),
      translate = (\<lambda>tr l w. (Inr (tr\<lparr>language_code := l, url := ''translated''\<rparr>), w)),
      get_transcript =
        (\<lambda>video_id langs w. (Inl (Exn NoTranscriptFound ''no transcript found''), w))\<rparr>"


definition generated_en :: track where
  "generated_en = \<lparr>language = ''English (auto-generated)'', language_code = ''en'',
     is_generated = True, is_translatable = True, url = ''generated-en''\<rparr>"

definition manual_de :: track where
  "manual_de = \<lparr>language = ''German'', language_code = ''de'', is_generated = False,
     is_translatable = True, url = ''manual-de''\<rparr>"


section \<open>Speech-to-text fallback\<close>

text \<open>
  The helpers \<^verbatim>\<open>_download_audio_tmp\<close>, \<^verbatim>\<open>_split_audio_ffmpeg\<close>,
  \<^verbatim>\<open>_gemini_transcribe_files\<close> and \<^verbatim>\<open>_whisper_transcribe_segments\<close> run external
  programs and remote services. What the route does with them depends only on what they
  return, so they are fields of an environment: each takes the world, and returns its
  value or the exception that escapes it, and the world it leaves. \<^verbatim>\<open>os.getenv\<close> reads
  the environment variables, which are part of the world. \<^verbatim>\<open>rmtree\<close> is
  \<^verbatim>\<open>shutil.rmtree(..., ignore_errors=True)\<close>. A path is the list of its components.
\<close>

type_synonym path = "string list"

record 'w stt_env =
  getenv :: "'w \<Rightarrow> string \<Rightarrow> string option"
  download_audio_tmp :: "string \<Rightarrow> 'w \<Rightarrow> (exn + path option) \<times> 'w"
  split_audio_ffmpeg :: "path \<Rightarrow> int \<Rightarrow> 'w \<Rightarrow> (exn + path list) \<times> 'w"
  gemini_transcribe_files ::
    "path list \<Rightarrow> string \<Rightarrow> string option \<Rightarrow> 'w \<Rightarrow> (exn + segment list option) \<times> 'w"
  whisper_transcribe_segments :: "path \<Rightarrow> string \<Rightarrow> 'w \<Rightarrow> (exn + segment list option) \<times> 'w"
  rmtree :: "path \<Rightarrow> 'w \<Rightarrow> 'w"

definition parent :: "path \<Rightarrow> path" where
  "parent p = butlast p"

text \<open>\<^verbatim>\<open>os.getenv(name, default)\<close>.\<close>

definition getenv_or :: "'w stt_env \<Rightarrow> 'w \<Rightarrow> string \<Rightarrow> string \<Rightarrow> string" where
  "getenv_or senv w name fallback =
     (case getenv senv w name of None \<Rightarrow> fallback | Some v \<Rightarrow> v)"

text \<open>
  \<^verbatim>\<open>str.strip()\<close>: the whitespace characters among the first 256 code points.
\<close>

definition is_space :: "char \<Rightarrow> bool" where
  "is_space c = (of_char c \<in> {9 :: nat, 10, 11, 12, 13, 28, 29, 30, 31, 32, 133, 160})"

definition strip :: "string \<Rightarrow> string" where
  "strip s = rev (dropWhile is_space (rev (dropWhile is_space s)))"

text \<open>
  \<^verbatim>\<open>int(s)\<close> on a string: surrounding whitespace is dropped, one sign is allowed, and
  the rest is a non-empty run of decimal digits in which single underscores may
  separate digits. Anything else raises \<^verbatim>\<open>ValueError\<close>.
\<close>

definition digit_value :: "char \<Rightarrow> nat option" where
  "digit_value c = map_of (zip ''0123456789'' [0, 1, 2, 3, 4, 5, 6, 7, 8, 9]) c"

fun int_digits :: "nat \<Rightarrow> bool \<Rightarrow> string \<Rightarrow> nat option" where
  "int_digits acc after_digit [] = (if after_digit then Some acc else None)"
| "int_digits acc after_digit (c # cs) =
     (case digit_value c of
        Some d \<Rightarrow> int_digits (10 * acc + d) True cs
      | None \<Rightarrow> if c = CHR ''_'' \<and> after_digit then int_digits acc False cs else None)"

definition int_str :: "string \<Rightarrow> exn + int" where
  "int_str s =
     (let body = strip s;
          negative = (body \<noteq> [] \<and> hd body = CHR ''-'');
          signed = (body \<noteq> [] \<and> (hd body = CHR ''-'' \<or> hd body = CHR ''+''));
          digits = (if signed then tl body else body)
      in case int_digits 0 False digits of
           None \<Rightarrow> Inl (Exn ValueError
                          (''invalid literal for int() with base 10: '' @
                           [CHR 0x27] @ s @ [CHR 0x27]))
         | Some n \<Rightarrow> Inr (if negative then - int n else int n))"

text \<open>\<^verbatim>\<open>str(n)\<close> on an integer.\<close>

fun str_nat :: "nat \<Rightarrow> string" where
  "str_nat n =
     (if n < 10 then [''0123456789'' ! n]
      else str_nat (n div 10) @ [''0123456789'' ! (n mod 10)])"

declare str_nat.simps [simp del]

definition str_int :: "int \<Rightarrow> string" where
  "str_int i = (if i < 0 then CHR ''-'' # str_nat (nat (- i)) else str_nat (nat i))"

text \<open>
  \<^verbatim>\<open>_stt_fallback\<close>: without an audio file the result is \<^verbatim>\<open>None\<close>; otherwise the
  segments of Whisper go through \<^verbatim>\<open>_normalize_durations\<close> (which returns \<^verbatim>\<open>None\<close> for
  \<^verbatim>\<open>None\<close>), and the \<^verbatim>\<open>finally\<close> clause removes the directory of the audio file on
  every way out.
\<close>

definition stt_fallback ::
  "'w stt_env \<Rightarrow> string \<Rightarrow> string \<Rightarrow> 'w \<Rightarrow> (exn + segment list option) \<times> 'w" where
  "stt_fallback senv video_id lang w =
     (case download_audio_tmp senv video_id w of
        (Inl e, w1) \<Rightarrow> (Inl e, w1)
      | (Inr None, w1) \<Rightarrow> (Inr None, w1)
      | (Inr (Some audio), w1) \<Rightarrow>
          (case whisper_transcribe_segments senv audio lang w1 of
             (Inl e, w2) \<Rightarrow> (Inl e, rmtree senv (parent audio) w2)
           | (Inr segs, w2) \<Rightarrow>
               (Inr (map_option normalize_durations segs), rmtree senv (parent audio) w2)))"

text \<open>
  The Gemini branch of the route, which the source writes out three times. The
  \<^verbatim>\<open>finally\<close> clause removes the directory of the audio file and, when \<^verbatim>\<open>parts\<close> is
  bound, not empty and in another directory, that directory too; an exception inside
  the clause (the unbound \<^verbatim>\<open>parts\<close> of the third copy) is swallowed. The \<^verbatim>\<open>try\<close> has
  no \<^verbatim>\<open>except\<close> clause: an exception of \<^verbatim>\<open>int(...)\<close>, of the split or of the
  transcription leaves the branch after the cleanup.
\<close>

definition cleanup :: "'w stt_env \<Rightarrow> path \<Rightarrow> path list \<Rightarrow> 'w \<Rightarrow> 'w" where
  "cleanup senv audio parts w =
     (let w1 = rmtree senv (parent audio) w
      in if parts \<noteq> [] \<and> parent (hd parts) \<noteq> parent audio
         then rmtree senv (parent (hd parts)) w1
         else w1)"

definition gemini_stt ::
  "'w stt_env \<Rightarrow> string \<Rightarrow> string \<Rightarrow> string option \<Rightarrow> 'w
     \<Rightarrow> (exn + segment list option) \<times> 'w" where
  "gemini_stt senv videoId lang api_key_override w =
     (case download_audio_tmp senv videoId w of
        (Inl e, w1) \<Rightarrow> (Inl e, w1)
      | (Inr None, w1) \<Rightarrow> (Inr None, w1)
      | (Inr (Some audio), w1) \<Rightarrow>
          (case int_str (getenv_or senv w1 ''GEMINI_SEGMENT_SEC'' ''300'') of
             Inl e \<Rightarrow> (Inl e, rmtree senv (parent audio) w1)
           | Inr segment_seconds \<Rightarrow>
               (case split_audio_ffmpeg senv audio segment_seconds w1 of
                  (Inl e, w2) \<Rightarrow> (Inl e, rmtree senv (parent audio) w2)
                | (Inr parts, w2) \<Rightarrow>
                    (case gemini_transcribe_files senv parts lang api_key_override w2 of
                       (segs, w3) \<Rightarrow> (segs, cleanup senv audio parts w3)))))"

text \<open>
  The choice of the backend: \<^verbatim>\<open>gemini\<close>, \<^verbatim>\<open>openai\<close>, and for \<^verbatim>\<open>local\<close> or an unknown
  name only a log line, with \<^verbatim>\<open>segs\<close> left at \<^verbatim>\<open>None\<close>.
\<close>

definition stt_enabled :: "'w stt_env \<Rightarrow> 'w \<Rightarrow> bool" where
  "stt_enabled senv w = (strip (getenv_or senv w ''ENABLE_STT'' ''1'') \<noteq> ''0'')"

definition stt_backend :: "'w stt_env \<Rightarrow> string option \<Rightarrow> 'w \<Rightarrow> string" where
  "stt_backend senv sttBackend w =
     lower (strip (case sttBackend of
                     None \<Rightarrow> getenv_or senv w ''STT_BACKEND'' ''openai''
                   | Some b \<Rightarrow> if b = [] then getenv_or senv w ''STT_BACKEND'' ''openai'' else b))"

definition stt_dispatch ::
  "'w stt_env \<Rightarrow> string option \<Rightarrow> string \<Rightarrow> string \<Rightarrow> string \<Rightarrow> 'w
     \<Rightarrow> (exn + segment list option) \<times> 'w" where
  "stt_dispatch senv api_key_override backend videoId lang w =
     (if backend = ''gemini'' then gemini_stt senv videoId lang api_key_override w
      else if backend = ''openai'' then stt_fallback senv videoId lang w
      else (Inr None, w))"

section \<open>The route /transcript\<close>

text \<open>
  The request object is used for the header \<^verbatim>\<open>X-Gemini-Api-Key\<close> only. A response is
  the returned list, an \<^verbatim>\<open>HTTPException\<close> with its status, detail and headers, or an
  exception that the route does not catch.
\<close>

record request =
  headers :: "string \<rightharpoonup> string"

datatype response =
  Segments "segment list"
| HTTPException int string "(string \<times> string) list"
| Uncaught exn

text \<open>\<^verbatim>\<open>if data:\<close> for a value that is \<^verbatim>\<open>None\<close> or a list.\<close>

definition truthy :: "'a list option \<Rightarrow> bool" where
  "truthy data = (case data of None \<Rightarrow> False | Some xs \<Rightarrow> xs \<noteq> [])"

definition the_list :: "'a list option \<Rightarrow> 'a list" where
  "the_list data = (case data of None \<Rightarrow> [] | Some xs \<Rightarrow> xs)"

text \<open>
  The fallback that the exception path and the no-data path share: when
  \<^verbatim>\<open>sttFallback and enable_env\<close>, the backend is tried, and a non-empty result is
  cached and returned. Otherwise the cooldown is recorded by \<^verbatim>\<open>fail_cache_set\<close> and the
  route raises status 429 with the header \<^verbatim>\<open>Retry-After\<close>. The two paths differ in the
  cooldown, the header and the detail.
\<close>

definition stt_attempt ::
  "'w stt_env \<Rightarrow> string option \<Rightarrow> string \<Rightarrow> string \<Rightarrow> bool \<Rightarrow> string option \<Rightarrow> 'w
     \<Rightarrow> (exn + segment list option) \<times> 'w" where
  "stt_attempt senv api_key_override videoId lang sttFallback sttBackend w =
     (let enable_env = stt_enabled senv w;
          backend = stt_backend senv sttBackend w
      in if sttFallback \<and> enable_env
         then stt_dispatch senv api_key_override backend videoId lang w
         else (Inr None, w))"

definition stt_or_cooldown ::
  "'w clock \<Rightarrow> 'w stt_env \<Rightarrow> string option \<Rightarrow> string \<Rightarrow> string \<Rightarrow> bool \<Rightarrow> bool
     \<Rightarrow> string option \<Rightarrow> int \<Rightarrow> string \<Rightarrow> string \<Rightarrow> 'w state \<Rightarrow> response \<times> 'w state" where
  "stt_or_cooldown time senv api_key_override videoId lang disableTranslate sttFallback sttBackend
       retry_after_seconds retry_after detail s =
     (case stt_attempt senv api_key_override videoId lang sttFallback sttBackend (world s) of
        (Inl e, w) \<Rightarrow> (Uncaught e, s\<lparr>world := w\<rparr>)
      | (Inr segs, w) \<Rightarrow>
          if truthy segs
          then (Segments (the_list segs),
                cache_set time videoId lang disableTranslate (the_list segs) (s\<lparr>world := w\<rparr>))
          else (HTTPException 429 detail [(''Retry-After'', retry_after)],
                fail_cache_set time videoId lang disableTranslate (Some retry_after_seconds)
                  (s\<lparr>world := w\<rparr>)))"

text \<open>Step 2 of the route, \<^verbatim>\<open>if forceSTT:\<close>.\<close>

definition force_stt ::
  "'w clock \<Rightarrow> 'w stt_env \<Rightarrow> string option \<Rightarrow> string \<Rightarrow> string \<Rightarrow> bool \<Rightarrow> string option
     \<Rightarrow> 'w state \<Rightarrow> response \<times> 'w state" where
  "force_stt time senv api_key_override videoId lang disableTranslate sttBackend s =
     (let enable_env = stt_enabled senv (world s);
          backend = stt_backend senv sttBackend (world s)
      in if \<not> enable_env
         then (HTTPException 400 ''STT is disabled by ENABLE_STT=0'' [], s)
         else (case stt_dispatch senv api_key_override backend videoId lang (world s) of
                 (Inl e, w) \<Rightarrow> (Uncaught e, s\<lparr>world := w\<rparr>)
               | (Inr segs, w) \<Rightarrow>
                   if truthy segs
                   then (Segments (the_list segs),
                         cache_set time videoId lang disableTranslate (the_list segs)
                           (s\<lparr>world := w\<rparr>))
                   else (HTTPException 502
                           ''forceSTT failed: no segments produced by backend'' [],
                         s\<lparr>world := w\<rparr>)))"

text \<open>
  Step 3 of the route. The call of \<^verbatim>\<open>fetch_transcript_segments\<close> stands in a \<^verbatim>\<open>try\<close>
  with \<^verbatim>\<open>except Exception\<close>; so that the handler has a meaning, the callee is the
  parameter \<open>fetch_segments\<close>, which returns a value or raises.
\<close>

type_synonym 'w selector = "string \<Rightarrow> string \<Rightarrow> bool \<Rightarrow> 'w \<Rightarrow> (exn + segment list option) \<times> 'w"

definition upstream_fetch ::
  "'w clock \<Rightarrow> 'w stt_env \<Rightarrow> 'w selector \<Rightarrow> string option \<Rightarrow> string \<Rightarrow> string \<Rightarrow> bool
     \<Rightarrow> bool \<Rightarrow> string option \<Rightarrow> 'w state \<Rightarrow> response \<times> 'w state" where
  "upstream_fetch time senv fetch_segments api_key_override videoId lang disableTranslate
       sttFallback sttBackend s =
     (case fetch_segments videoId lang disableTranslate (world s) of
        (Inl e, w) \<Rightarrow>
          stt_or_cooldown time senv api_key_override videoId lang disableTranslate sttFallback
            sttBackend 120 ''120'' ''Upstream error. Please retry later.'' (s\<lparr>world := w\<rparr>)
      | (Inr data, w) \<Rightarrow>
          if \<not> truthy data
          then stt_or_cooldown time senv api_key_override videoId lang disableTranslate
                 sttFallback sttBackend 300 ''300''
                 (''Transcript temporarily unavailable (throttled or no captions). '' @
                  ''STT fallback may be disabled or unavailable.'')
                 (s\<lparr>world := w\<rparr>)
          else (Segments (the_list data),
                cache_set time videoId lang disableTranslate (the_list data)
                  (s\<lparr>world := w\<rparr>)))"

text \<open>
  \<^verbatim>\<open>gem_override\<close>: the stripped header \<^verbatim>\<open>X-Gemini-Api-Key\<close>, or \<^verbatim>\<open>None\<close> when it is
  missing or blank.
\<close>

definition gem_override :: "request \<Rightarrow> string option" where
  "gem_override request =
     (let gem_header = strip (case headers request ''X-Gemini-Api-Key'' of
                                None \<Rightarrow> [] | Some h \<Rightarrow> h)
      in if gem_header \<noteq> [] then Some gem_header else None)"

text \<open>
  The route. \<^verbatim>\<open>if data:\<close> and \<^verbatim>\<open>if remaining:\<close> test truthiness: an empty cached list
  and a remaining time of zero do not take the branch.
\<close>

definition transcript_with ::
  "'w clock \<Rightarrow> 'w stt_env \<Rightarrow> 'w selector \<Rightarrow> request \<Rightarrow> string \<Rightarrow> string \<Rightarrow> bool \<Rightarrow> bool
     \<Rightarrow> string option \<Rightarrow> bool \<Rightarrow> 'w state \<Rightarrow> response \<times> 'w state" where
  "transcript_with time senv fetch_segments request videoId lang disableTranslate sttFallback
       sttBackend forceSTT s =
     (let (data, s1) = cache_get time videoId lang disableTranslate s
      in if truthy data then (Segments (the_list data), s1)
         else (let (remaining, s2) = fail_cache_get time videoId lang disableTranslate s1
               in if remaining \<noteq> None \<and> remaining \<noteq> Some 0
                  then (HTTPException 429 ''Upstream rate limited recently. Please retry later.''
                          [(''Retry-After'', str_int (case remaining of None \<Rightarrow> 0 | Some r \<Rightarrow> r))],
                        s2)
                  else if forceSTT
                       then force_stt time senv (gem_override request) videoId lang
                              disableTranslate sttBackend s2
                       else upstream_fetch time senv fetch_segments (gem_override request)
                              videoId lang disableTranslate sttFallback sttBackend s2))"

text \<open>The route of the application: the callee is the selector, which never raises.\<close>

definition transcript ::
  "'w clock \<Rightarrow> 'w stt_env \<Rightarrow> 'w pause_env \<Rightarrow> 'w caption_api \<Rightarrow> request \<Rightarrow> string \<Rightarrow> string
     \<Rightarrow> bool \<Rightarrow> bool \<Rightarrow> string option \<Rightarrow> bool \<Rightarrow> 'w state \<Rightarrow> response \<times> 'w state" where
  "transcript time senv env api =
     transcript_with time senv
       (\<lambda>videoId lang disableTranslate w.
          case fetch_transcript_segments env api videoId lang disableTranslate w of
            (data, w1) \<Rightarrow> (Inr data, w1))"

text \<open>
  Two properties of the success cache: no entry holds an empty list; and every entry
  of the later state was there before or holds a non-empty list.
\<close>

definition cache_nonempty :: "'w state \<Rightarrow> bool" where
  "cache_nonempty s = (\<forall>k ts data. cache s k = Some (ts, data) \<longrightarrow> data \<noteq> [])"

definition stores_nonempty :: "'w state \<Rightarrow> 'w state \<Rightarrow> bool" where
  "stores_nonempty s s' =
     (\<forall>k ts data. cache s' k = Some (ts, data) \<longrightarrow> cache s k = Some (ts, data) \<or> data \<noteq> [])"

text \<open>
  No key has an entry in both caches. What a run of the route may write after the two
  cache checks: nothing, one non-empty list under the key of the request, or one
  cooldown under that key.
\<close>

definition exclusive :: "'w state \<Rightarrow> bool" where
  "exclusive s = (\<forall>k. cache s k = None \<or> fail_cache s k = None)"

definition writes_key :: "key \<Rightarrow> 'w state \<Rightarrow> 'w state \<Rightarrow> bool" where
  "writes_key k s s' =
     ((cache s' = cache s \<and> fail_cache s' = fail_cache s) \<or>
      (\<exists>now data. data \<noteq> [] \<and> cache s' = (cache s)(k \<mapsto> (now, data)) \<and>
         fail_cache s' = fail_cache s) \<or>
      (\<exists>now c. cache s' = cache s \<and> fail_cache s' = (fail_cache s)(k \<mapsto> (now, c))))"

text \<open>
  The states of the service: both dictionaries start empty, a request runs the route,
  and between two requests the world outside may change in any way. Nothing else
  writes to the dictionaries.
\<close>

inductive reachable :: "'w clock \<Rightarrow> 'w stt_env \<Rightarrow> 'w selector \<Rightarrow> 'w state \<Rightarrow> bool"
  for time :: "'w clock" and senv :: "'w stt_env" and fetch_segments :: "'w selector" where
  start: "reachable time senv fetch_segments (empty_state w)"
| served: "reachable time senv fetch_segments s \<Longrightarrow>
     transcript_with time senv fetch_segments request videoId lang disableTranslate sttFallback
       sttBackend forceSTT s = (response, s') \<Longrightarrow>
     reachable time senv fetch_segments s'"
| outside: "reachable time senv fetch_segments s \<Longrightarrow>
     reachable time senv fetch_segments (s\<lparr>world := w\<rparr>)"

text \<open>
  Collaborators for concrete runs: environment variables from a table, an audio file
  that is always downloaded, a split into the one file, and backends with a fixed
  answer. None of them changes the world.
\<close>

definition demo_stt ::
  "(string \<times> string) list \<Rightarrow> segment list option \<Rightarrow> segment list option \<Rightarrow> 'w stt_env" where
  "demo_stt variables gemini_answer whisper_answer =
     \<lparr>getenv = (\<lambda>w. map_of variables),
      download_audio_tmp = (\<lambda>videoId w. (Inr (Some [''tmp'', ''yt_stt_1'', ''audio.webm'']), w)),
      split_audio_ffmpeg = (\<lambda>audio segment_seconds w. (Inr [audio], w)),
      gemini_transcribe_files = (\<lambda>parts lang key w. (Inr gemini_answer, w)),
      whisper_transcribe_segments = (\<lambda>audio lang w. (Inr whisper_answer, w)),
      rmtree = (\<lambda>p w. w)\<rparr>"

definition no_request :: request where
  "no_request = \<lparr>headers = Map.empty\<rparr>"
section \<open>Properties of the caches\<close>

lemma cache_set_entry:
  "time (world s0) = (t0, w0) \<Longrightarrow>
   cache (cache_set time v l d data s0) (v, l, d) = Some (t0, data)"
  by (simp add: cache_set_def)

lemma fail_cache_set_entry:
  "time (world s0) = (t0, w0) \<Longrightarrow> c \<noteq> 0 \<Longrightarrow>
   fail_cache (fail_cache_set time v l d (Some c) s0) (v, l, d) = Some (t0, c)"
  by (simp add: fail_cache_set_def)

lemma py_int_le:
  "x \<le> of_int c \<Longrightarrow> py_int x \<le> c"
  by (simp add: py_int_def floor_le_iff ceiling_le_iff)

text \<open>
  C5. The store reads the clock at \<open>t0\<close>. A later \<^verbatim>\<open>cache_get\<close> of the same key, in any
  state where the entry of that key is still the stored one, reads the clock at \<open>t1\<close>:
  it returns the stored value while \<open>t1 - t0 \<le> 1800\<close>; after that it returns
  nothing and the entry is gone from the map of the resulting state.
\<close>

theorem cache_get_after_cache_set:
  assumes "time (world s0) = (t0, w0)"
    and "cache s (v, l, d) = cache (cache_set time v l d data s0) (v, l, d)"
    and "time (world s) = (t1, w1)"
  shows "(t1 - t0 \<le> 1800 \<longrightarrow>
            cache_get time v l d s = (Some data, s\<lparr>world := w1\<rparr>)) \<and>
         (1800 < t1 - t0 \<longrightarrow>
            cache_get time v l d s =
              (None, s\<lparr>cache := (cache s)((v, l, d) := None), world := w1\<rparr>) \<and>
            cache (snd (cache_get time v l d s)) (v, l, d) = None)"
proof -
  have entry: "cache s (v, l, d) = Some (t0, data)"
    using assms(1,2) by (simp add: cache_set_entry)
  show ?thesis
    using entry assms(3) by (simp add: cache_get_def CACHE_TTL_SECONDS_def)
qed

theorem cache_get_after_cache_set_witness:
  "cache_get list_clock ''V1'' ''en'' False
     (cache_set list_clock ''V1'' ''en'' False [\<lparr>text = ''hi'', start = 0, duration = Some 2\<rparr>]
        (empty_state [100, 1900, 1901]))
   = (Some [\<lparr>text = ''hi'', start = 0, duration = Some 2\<rparr>],
      (cache_set list_clock ''V1'' ''en'' False [\<lparr>text = ''hi'', start = 0, duration = Some 2\<rparr>]
        (empty_state [100, 1900, 1901]))\<lparr>world := [1901]\<rparr>)
   \<and> fst (cache_get list_clock ''V1'' ''en'' False
     (cache_set list_clock ''V1'' ''en'' False [\<lparr>text = ''hi'', start = 0, duration = Some 2\<rparr>]
        (empty_state [100, 1901, 1902]))) = None"
  using cache_get_after_cache_set
          [of list_clock "empty_state [100, 1900, 1901]" 100 "[1900, 1901]"
              "cache_set list_clock ''V1'' ''en'' False
                 [\<lparr>text = ''hi'', start = 0, duration = Some 2\<rparr>] (empty_state [100, 1900, 1901])"
              "''V1''" "''en''" False "[\<lparr>text = ''hi'', start = 0, duration = Some 2\<rparr>]"
              1900 "[1901]"]
        cache_get_after_cache_set
          [of list_clock "empty_state [100, 1901, 1902]" 100 "[1901, 1902]"
              "cache_set list_clock ''V1'' ''en'' False
                 [\<lparr>text = ''hi'', start = 0, duration = Some 2\<rparr>] (empty_state [100, 1901, 1902])"
              "''V1''" "''en''" False "[\<lparr>text = ''hi'', start = 0, duration = Some 2\<rparr>]"
              1901 "[1902]"]
  by (simp add: empty_state_def cache_set_def)

text \<open>
  C6, the claim as stated, at three concrete runs.
  Cooldown 120 stored at time 0 and read half a second later: the function answers 119,
  the integer part taken by \<^verbatim>\<open>int(...)\<close>, which is not the cooldown minus the elapsed
  time, \<open>119.5\<close>, floored at 1.
  Cooldown 0 stored at time 0 and read at once: 0 is falsy, the default 300 is stored,
  and the answer 300 is not at most 0.
  Cooldown 120 stored when the clock reads 100 and read back when the clock reads 50
  (\<^verbatim>\<open>time.time()\<close> is not monotonic): the elapsed time \<open>-50\<close> is within the cooldown, and
  the answer 170 is not at most 120.
\<close>

theorem fail_cache_get_remaining_counterexample:
  "fst (fail_cache_get list_clock ''V1'' ''en'' False
          (fail_cache_set list_clock ''V1'' ''en'' False (Some 120)
             (empty_state [0, 1 / 2, 1 / 2]))) = Some 119
   \<and> real_of_int 119 \<noteq> max 1 (120 - (1 / 2 - 0))
   \<and> fst (fail_cache_get list_clock ''V1'' ''en'' False
          (fail_cache_set list_clock ''V1'' ''en'' False (Some 0)
             (empty_state [0, 0, 0]))) = Some 300
   \<and> \<not> (300 :: int) \<le> 0
   \<and> fst (fail_cache_get list_clock ''V1'' ''en'' False
          (fail_cache_set list_clock ''V1'' ''en'' False (Some 120)
             (empty_state [100, 50, 50]))) = Some 170
   \<and> \<not> (170 :: int) \<le> 120"
  by (simp add: fail_cache_get_def fail_cache_set_def empty_state_def py_int_def
        FAIL_TTL_SECONDS_DEFAULT_def)

text \<open>
  C6, amended. \<^verbatim>\<open>fail_cache_set(key, c)\<close> reads the clock at \<open>t0\<close> and stores the cooldown
  \<open>r\<close>, which is \<open>c\<close>, or the default 300 when \<open>c\<close> is 0. A later \<^verbatim>\<open>fail_cache_get\<close> of
  the same key, in any state where the entry is still the stored one, reads the clock
  at \<open>t1\<close> and, when the entry is still valid, again at \<open>t2\<close>.
  While \<open>t1 - t0 \<le> r\<close> it returns the integer \<open>max 1 (int (r - (t2 - t0)))\<close>, with
  \<open>int\<close> truncating towards zero. That value is at least 1. It is at most \<open>r\<close> when
  neither reading is earlier than \<open>t0\<close>.
  Once \<open>t1 - t0 > r\<close> it returns nothing and the entry is gone from the map of the
  resulting state.
\<close>

theorem fail_cache_get_after_fail_cache_set:
  assumes "time (world s0) = (t0, w0)"
    and "fail_cache s (v, l, d) = fail_cache (fail_cache_set time v l d (Some c) s0) (v, l, d)"
    and "time (world s) = (t1, w1)"
    and "time w1 = (t2, w2)"
    and "r = (if c = 0 then 300 else c)"
  shows "(t1 - t0 \<le> of_int r \<longrightarrow>
            fail_cache_get time v l d s =
              (Some (max 1 (py_int (of_int r - (t2 - t0)))), s\<lparr>world := w2\<rparr>) \<and>
            1 \<le> max 1 (py_int (of_int r - (t2 - t0))) \<and>
            (t0 \<le> t1 \<and> t0 \<le> t2 \<longrightarrow> max 1 (py_int (of_int r - (t2 - t0))) \<le> r)) \<and>
         (of_int r < t1 - t0 \<longrightarrow>
            fail_cache_get time v l d s =
              (None, s\<lparr>fail_cache := (fail_cache s)((v, l, d) := None), world := w1\<rparr>) \<and>
            fail_cache (snd (fail_cache_get time v l d s)) (v, l, d) = None)"
proof -
  have entry: "fail_cache s (v, l, d) = Some (t0, r)"
    using assms(1,2,5) by (simp add: fail_cache_set_def FAIL_TTL_SECONDS_DEFAULT_def)
  have nonzero: "r \<noteq> 0"
    using assms(5) by simp
  have bound: "max 1 (py_int (of_int r - (t2 - t0))) \<le> r"
    if "t1 - t0 \<le> of_int r" and "t0 \<le> t1" and "t0 \<le> t2"
  proof -
    have "(0 :: real) \<le> of_int r"
      using that(1,2) by linarith
    then have "1 \<le> r"
      using nonzero by linarith
    moreover have "py_int (of_int r - (t2 - t0)) \<le> r"
      using that(3) by (intro py_int_le) linarith
    ultimately show ?thesis by simp
  qed
  have get_valid: "t1 - t0 \<le> of_int r \<Longrightarrow>
      fail_cache_get time v l d s =
        (Some (max 1 (py_int (of_int r - (t2 - t0)))), s\<lparr>world := w2\<rparr>)"
    using entry assms(3,4) by (simp add: fail_cache_get_def)
  have get_expired: "of_int r < t1 - t0 \<Longrightarrow>
      fail_cache_get time v l d s =
        (None, s\<lparr>fail_cache := (fail_cache s)((v, l, d) := None), world := w1\<rparr>)"
    using entry assms(3) by (simp add: fail_cache_get_def)
  show ?thesis
    using bound get_valid get_expired by simp
qed

theorem fail_cache_get_after_fail_cache_set_witness:
  "fail_cache_get list_clock ''V1'' ''en'' False
     (fail_cache_set list_clock ''V1'' ''en'' False (Some 120) (empty_state [0, 1 / 2, 1 / 2]))
   = (Some 119,
      (fail_cache_set list_clock ''V1'' ''en'' False (Some 120)
         (empty_state [0, 1 / 2, 1 / 2]))\<lparr>world := []\<rparr>)
   \<and> fst (fail_cache_get list_clock ''V1'' ''en'' False
       (fail_cache_set list_clock ''V1'' ''en'' False (Some 120) (empty_state [0, 121, 122])))
     = None
   \<and> fst (fail_cache_get list_clock ''V1'' ''en'' False
       (fail_cache_set list_clock ''V1'' ''en'' False (Some 0) (empty_state [0, 10, 10])))
     = Some 290"
  using fail_cache_get_after_fail_cache_set
          [of list_clock "empty_state [0, 1 / 2, 1 / 2]" 0 "[1 / 2, 1 / 2]"
              "fail_cache_set list_clock ''V1'' ''en'' False (Some 120)
                 (empty_state [0, 1 / 2, 1 / 2])"
              "''V1''" "''en''" False 120 "1 / 2" "[1 / 2]" "1 / 2" "[]" 120]
        fail_cache_get_after_fail_cache_set
          [of list_clock "empty_state [0, 121, 122]" 0 "[121, 122]"
              "fail_cache_set list_clock ''V1'' ''en'' False (Some 120)
                 (empty_state [0, 121, 122])"
              "''V1''" "''en''" False 120 121 "[122]" 122 "[]" 120]
        fail_cache_get_after_fail_cache_set
          [of list_clock "empty_state [0, 10, 10]" 0 "[10, 10]"
              "fail_cache_set list_clock ''V1'' ''en'' False (Some 0)
                 (empty_state [0, 10, 10])"
              "''V1''" "''en''" False 0 10 "[10]" 10 "[]" 300]
  by (simp add: empty_state_def fail_cache_set_def py_int_def)

section \<open>Properties of the duration normalizer\<close>

lemma normalize_durations_nth:
  "i < length segs \<Longrightarrow> normalize_durations segs ! i = normalize_seg segs i"
  by (auto simp: normalize_durations_def)

lemma normalize_durations_length:
  "length (normalize_durations segs) = length segs"
  by (simp add: normalize_durations_def)

text \<open>
  C7. The output has the length of the input (so the empty input gives the empty
  output) and, position by position, the text and the start of the input. A segment
  with a positive duration is returned as it is. A segment whose duration is missing
  or not positive gets: when it is not the last, the rounded distance to the next
  start, or 0 if that is negative; when it is the last of at least two, the rounded
  distance from the previous start, or 0 if that is negative; when it is the only
  one, 0.
\<close>

theorem normalize_durations_fills:
  "length (normalize_durations segs) = length segs \<and>
   normalize_durations [] = [] \<and>
   (\<forall>i < length segs.
      text (normalize_durations segs ! i) = text (segs ! i) \<and>
      start (normalize_durations segs ! i) = start (segs ! i) \<and>
      (\<forall>x. duration (segs ! i) = Some x \<and> 0 < x \<longrightarrow>
           normalize_durations segs ! i = segs ! i) \<and>
      (duration (segs ! i) = None \<or> (\<exists>x. duration (segs ! i) = Some x \<and> x \<le> 0) \<longrightarrow>
         (Suc i < length segs \<longrightarrow>
            duration (normalize_durations segs ! i) =
              Some (max 0 (py_round3 (start (segs ! Suc i) - start (segs ! i))))) \<and>
         (Suc i = length segs \<and> 2 \<le> length segs \<longrightarrow>
            duration (normalize_durations segs ! i) =
              Some (max 0 (py_round3 (start (segs ! i) - start (segs ! (i - 1)))))) \<and>
         (length segs = 1 \<longrightarrow>
            duration (normalize_durations segs ! i) = Some 0)))"
proof -
  have per_index:
    "text (normalize_seg segs i) = text (segs ! i) \<and>
     start (normalize_seg segs i) = start (segs ! i) \<and>
     (\<forall>x. duration (segs ! i) = Some x \<and> 0 < x \<longrightarrow> normalize_seg segs i = segs ! i) \<and>
     (duration (segs ! i) = None \<or> (\<exists>x. duration (segs ! i) = Some x \<and> x \<le> 0) \<longrightarrow>
        (Suc i < length segs \<longrightarrow>
           duration (normalize_seg segs i) =
             Some (max 0 (py_round3 (start (segs ! Suc i) - start (segs ! i))))) \<and>
        (Suc i = length segs \<and> 2 \<le> length segs \<longrightarrow>
           duration (normalize_seg segs i) =
             Some (max 0 (py_round3 (start (segs ! i) - start (segs ! (i - 1)))))) \<and>
        (length segs = 1 \<longrightarrow> duration (normalize_seg segs i) = Some 0))"
    if "i < length segs" for i
    using that by (auto simp: normalize_seg_def needs_fill_def filled_def Let_def)
  have "\<forall>i < length segs. normalize_durations segs ! i = normalize_seg segs i"
    by (simp add: normalize_durations_nth)
  then show ?thesis
    using per_index by (simp add: normalize_durations_length normalize_durations_def)
qed

text \<open>
  The run of the specification: the first duration \<open>-1\<close> becomes the distance 5 to the
  next start, the positive durations stay.
\<close>

theorem normalize_durations_fills_witness:
  "normalize_durations
     [\<lparr>text = ''a'', start = 0, duration = Some (- 1)\<rparr>,
      \<lparr>text = ''b'', start = 5, duration = Some 2\<rparr>,
      \<lparr>text = ''c'', start = 10, duration = None\<rparr>] ! 1
     = \<lparr>text = ''b'', start = 5, duration = Some 2\<rparr>
   \<and> duration (normalize_durations
     [\<lparr>text = ''a'', start = 0, duration = Some (- 1)\<rparr>,
      \<lparr>text = ''b'', start = 5, duration = Some 2\<rparr>,
      \<lparr>text = ''c'', start = 10, duration = None\<rparr>] ! 0) = Some 5
   \<and> duration (normalize_durations
     [\<lparr>text = ''a'', start = 0, duration = Some (- 1)\<rparr>,
      \<lparr>text = ''b'', start = 5, duration = Some 2\<rparr>,
      \<lparr>text = ''c'', start = 10, duration = None\<rparr>] ! 2) = Some 5
   \<and> duration (normalize_durations [\<lparr>text = ''a'', start = 7, duration = None\<rparr>] ! 0) = Some 0"
proof -
  let ?xs = "[\<lparr>text = ''a'', start = 0, duration = Some (- 1)\<rparr>,
      \<lparr>text = ''b'', start = 5, duration = Some 2\<rparr>,
      \<lparr>text = ''c'', start = 10, duration = None\<rparr>]"
  let ?ys = "[\<lparr>text = ''a'', start = 7, duration = None\<rparr>]"
  note three = normalize_durations_fills [of ?xs, THEN conjunct2, THEN conjunct2, rule_format]
  note one = normalize_durations_fills [of ?ys, THEN conjunct2, THEN conjunct2, rule_format]
  have r: "py_round3 5 = 5"
    by (simp add: py_round3_def)
  have a: "normalize_durations ?xs ! 1 = ?xs ! 1"
    using three [of 1] by simp
  have b: "duration (normalize_durations ?xs ! 0) = Some 5"
    using three [of 0] r by simp
  have c: "duration (normalize_durations ?xs ! 2) = Some 5"
    using three [of 2] r by simp
  have d: "duration (normalize_durations ?ys ! 0) = Some 0"
    using one [of 0] by simp
  show ?thesis
    using a b c d by simp
qed
section \<open>Properties of the retry executor\<close>

lemma retry_loop_retries:
  assumes "\<forall>j < n. fails_transiently (fst (attempt env f b w j))"
    and "int n \<le> attempts - 1"
  shows "retry_loop env f attempts b (k + n) 0 w
         = retry_loop env f attempts b k n (world_before env f b w n)"
  using assms
proof (induction n arbitrary: k)
  case 0
  then show ?case by simp
next
  case (Suc n)
  have first: "retry_loop env f attempts b (Suc k + n) 0 w
         = retry_loop env f attempts b (Suc k) n (world_before env f b w n)"
    using Suc.IH [of "Suc k"] Suc.prems by simp
  have "fails_transiently (fst (f (world_before env f b w n)))"
    using Suc.prems(1) by (simp add: attempt_def)
  then have "retry_loop env f attempts b (Suc k) n (world_before env f b w n)
         = retry_loop env f attempts b k (Suc n) (world_before env f b w (Suc n))"
    using Suc.prems(2)
    by (auto simp: fails_transiently_def split: prod.splits option.splits)
  then show ?case using first by simp
qed

lemma world_before_scripted:
  "world_before no_pause (scripted script) b 0 i = i"
  by (induction i) (simp_all add: scripted_def pause_def no_pause_def)

text \<open>
  C1. With \<open>attempts = 5\<close>, for every operation, world and base delay:
  if attempts 0 to 3 fail transiently and attempt 4 returns a non-empty list, that
  list is returned, in the world the fifth call left;
  if attempts 0 to 4 all fail transiently, the exception of the fifth attempt is
  raised in the world the fifth call left: no sixth call and no pause follow;
  if the first attempt fails with an exception that is not transient, that exception is
  raised in the world the first call left: no pause and no second call.
  Transient is the test of the source on the lowered message (contains \<open>429\<close>,
  \<open>too many requests\<close>, \<open>no element found\<close> or \<open>empty\<close>), applied also to the
  error raised for empty data.
\<close>

theorem fetch_with_retry_default_attempts:
  "((\<forall>j < 4. fails_transiently (fst (attempt env f b w j))) \<and>
     fst (attempt env f b w 4) = Inr v \<and> v \<noteq> [] \<longrightarrow>
       fetch_with_retry env f 5 b w = (Inr (Some v), snd (attempt env f b w 4))) \<and>
   ((\<forall>j < 5. fails_transiently (fst (attempt env f b w j))) \<longrightarrow>
       (\<exists>e. caught (fst (attempt env f b w 4)) = Some e \<and>
            fetch_with_retry env f 5 b w = (Inl e, snd (attempt env f b w 4)))) \<and>
   (\<forall>e. caught (fst (f w)) = Some e \<and> \<not> is_transient e \<longrightarrow>
       fetch_with_retry env f 5 b w = (Inl e, snd (f w)))"
proof (intro conjI impI allI)
  assume a: "(\<forall>j < 4. fails_transiently (fst (attempt env f b w j))) \<and>
     fst (attempt env f b w 4) = Inr v \<and> v \<noteq> []"
  have "retry_loop env f 5 b (1 + 4) 0 w = retry_loop env f 5 b 1 4 (world_before env f b w 4)"
    using a by (intro retry_loop_retries) auto
  then show "fetch_with_retry env f 5 b w = (Inr (Some v), snd (attempt env f b w 4))"
    using a
    by (auto simp: fetch_with_retry_def attempt_def caught_def eval_nat_numeral
        split: prod.splits)
next
  assume a: "\<forall>j < 5. fails_transiently (fst (attempt env f b w j))"
  have "retry_loop env f 5 b (1 + 4) 0 w = retry_loop env f 5 b 1 4 (world_before env f b w 4)"
    using a by (intro retry_loop_retries) auto
  moreover have "fails_transiently (fst (attempt env f b w 4))"
    using a by simp
  ultimately show "\<exists>e. caught (fst (attempt env f b w 4)) = Some e \<and>
            fetch_with_retry env f 5 b w = (Inl e, snd (attempt env f b w 4))"
    by (auto simp: fetch_with_retry_def attempt_def fails_transiently_def eval_nat_numeral
        split: prod.splits option.splits)
next
  fix e
  assume "caught (fst (f w)) = Some e \<and> \<not> is_transient e"
  then show "fetch_with_retry env f 5 b w = (Inl e, snd (f w))"
    by (auto simp: fetch_with_retry_def eval_nat_numeral split: prod.splits)
qed

text \<open>
  Three scripted operations, the world counting the calls: four rate-limit errors and
  then a result (5 calls); empty data on every call (5 calls, the error for empty data
  is raised); an error that is not transient (1 call).
\<close>

theorem fetch_with_retry_default_attempts_witness:
  "fetch_with_retry no_pause
     (scripted (\<lambda>n. if n < 4 then Inl (Exn OtherException ''HTTP Error 429: Too Many Requests'')
                    else Inr [7 :: nat])) 5 (6 / 5) 0
     = (Inr (Some [7]), 5)
   \<and> fetch_with_retry no_pause (scripted (\<lambda>n. Inr ([] :: nat list))) 5 (6 / 5) 0
     = (Inl (Exn ValueError ''empty transcript data''), 5)
   \<and> fetch_with_retry no_pause
       (scripted (\<lambda>n. (Inl (Exn OtherException ''Video unavailable'') :: exn + nat list)))
       5 (6 / 5) 0
     = (Inl (Exn OtherException ''Video unavailable''), 1)"
proof -
  let ?f1 = "\<lambda>n. if n < 4 then Inl (Exn OtherException ''HTTP Error 429: Too Many Requests'')
                    else Inr [7 :: nat]"
  let ?f2 = "\<lambda>n :: nat. (Inr [] :: exn + nat list)"
  let ?f3 = "\<lambda>n :: nat. (Inl (Exn OtherException ''Video unavailable'') :: exn + nat list)"
  have t1: "is_transient (Exn OtherException ''HTTP Error 429: Too Many Requests'')"
    by (simp add: is_transient_def is_rate_limit_def lower_def lower_char_def)
  have t2: "is_transient (Exn ValueError ''empty transcript data'')"
    by (simp add: is_transient_def is_empty_xml_def is_rate_limit_def lower_def lower_char_def)
  have t3: "\<not> is_transient (Exn OtherException ''Video unavailable'')"
    by (simp add: is_transient_def is_empty_xml_def is_rate_limit_def lower_def lower_char_def)
  have a: "fetch_with_retry no_pause (scripted ?f1) 5 (6 / 5) 0 = (Inr (Some [7]), 5)"
    using fetch_with_retry_default_attempts [of no_pause "scripted ?f1" "6 / 5" 0 "[7]"] t1
    by (simp add: attempt_def world_before_scripted fails_transiently_def caught_def scripted_def)
  have b: "fetch_with_retry no_pause (scripted ?f2) 5 (6 / 5) 0
             = (Inl (Exn ValueError ''empty transcript data''), 5)"
    using fetch_with_retry_default_attempts [of no_pause "scripted ?f2" "6 / 5" 0] t2
    by (simp add: attempt_def world_before_scripted fails_transiently_def caught_def scripted_def)
  have c: "fetch_with_retry no_pause (scripted ?f3) 5 (6 / 5) 0
             = (Inl (Exn OtherException ''Video unavailable''), 1)"
    using fetch_with_retry_default_attempts [of no_pause "scripted ?f3" "6 / 5" 0] t3
    by (simp add: caught_def scripted_def)
  show ?thesis
    using a b c by simp
qed

section \<open>Properties of the selector\<close>

lemma or_else_Some:
  "first w = (Some r, w1) \<Longrightarrow> or_else first second w = (Some r, w1)"
  by (simp add: or_else_def)

lemma or_else_None:
  "first w = (None, w1) \<Longrightarrow> or_else first second w = second w1"
  by (simp add: or_else_def)

lemma fetch_projected_Some:
  "fetch_with_retry env (fetch api tr) 5 (6 / 5) w = (Inr (Some data), w1) \<Longrightarrow>
   fetch_projected env api tr w = (Some (map project data), w1)"
  by (simp add: fetch_projected_def)

lemma fetch_projected_None:
  "fetch_with_retry env (fetch api tr) 5 (6 / 5) w = (Inl e, w1) \<Longrightarrow>
   fetch_projected env api tr w = (None, w1)"
  by (simp add: fetch_projected_def)

text \<open>
  C8. When the installed library can list and \<^verbatim>\<open>list_transcripts\<close> raises
  \<^verbatim>\<open>TranscriptsDisabled\<close> or \<^verbatim>\<open>NoTranscriptFound\<close>, the selector returns \<^verbatim>\<open>None\<close>, the
  empty result, and the world is the one the enumeration call left: no tier ran, no
  fetch was made, nothing was retried.
\<close>

theorem fetch_transcript_segments_no_transcripts:
  assumes "supports_listing api"
    and "list_transcripts api video_id w = (Inl e, w0)"
    and "kind e = TranscriptsDisabled \<or> kind e = NoTranscriptFound"
  shows "fetch_transcript_segments env api video_id l dt w = (None, w0)"
  using assms by (simp add: fetch_transcript_segments_def)

theorem fetch_transcript_segments_no_transcripts_witness:
  "fetch_transcript_segments no_pause
     ((demo_api [])\<lparr>list_transcripts :=
         (\<lambda>video_id w. (Inl (Exn TranscriptsDisabled ''Subtitles are disabled for this video''),
                         Suc w))\<rparr>)
     ''V1'' ''en'' False (0 :: nat) = (None, 1)"
  using fetch_transcript_segments_no_transcripts
          [of "(demo_api [])\<lparr>list_transcripts :=
                 (\<lambda>video_id w. (Inl (Exn TranscriptsDisabled
                    ''Subtitles are disabled for this video''), Suc w))\<rparr>"
              "''V1''" 0 "Exn TranscriptsDisabled ''Subtitles are disabled for this video''" 1
              no_pause "''en''" False]
  by (simp add: supports_listing_def demo_api_def)


lemma or_else_assoc:
  "or_else (or_else a b) c = or_else a (or_else b c)"
  by (auto simp: or_else_def fun_eq_iff split: prod.splits option.splits)

lemma first_success_append:
  "first_success body (xs @ ys) = or_else (first_success body xs) (first_success body ys)"
proof (induction xs)
  case Nil
  show ?case by (simp add: or_else_def fun_eq_iff)
next
  case (Cons x xs)
  have "first_success body ((x # xs) @ ys)
      = or_else (body x) (first_success body (xs @ ys))"
    by (simp add: fun_eq_iff)
  also have "\<dots> = or_else (body x) (or_else (first_success body xs) (first_success body ys))"
    by (simp add: Cons.IH)
  also have "\<dots> = or_else (or_else (body x) (first_success body xs)) (first_success body ys)"
    by (simp add: or_else_assoc)
  also have "or_else (body x) (first_success body xs) = first_success body (x # xs)"
    by (simp add: fun_eq_iff)
  finally show ?case .
qed

lemma first_success_Cons_Some:
  "body x w = (Some r, w1) \<Longrightarrow> first_success body (x # xs) w = (Some r, w1)"
  by (simp only: first_success.simps or_else_Some)

lemma first_success_Cons_None:
  "body x w = (None, w1) \<Longrightarrow> first_success body (x # xs) w = first_success body xs w1"
  by (simp only: first_success.simps or_else_None)

text \<open>
  The run of the selector once the listing has been obtained: the six tiers in order,
  each started in the world the one before it left.
\<close>

lemma listing_run:
  assumes "supports_listing api"
    and "list_transcripts api video_id w = (Inr list_obj, w0)"
  shows "fetch_transcript_segments env api video_id l dt w =
     or_else (exact_tier env api find_manually_created_transcript list_obj
                [l, ''en'', ''en-US'', ''en-GB''])
    (or_else (if \<not> dt then translate_tier env api l list_obj else (\<lambda>w1. (None, w1)))
    (or_else (exact_tier env api find_generated_transcript list_obj
                [l, ''en'', ''en-US'', ''en-GB''])
    (or_else (if lower l = ''auto''
              then or_else (any_tier env api (\<lambda>tr. \<not> is_generated tr) list_obj)
                     (any_tier env api (\<lambda>tr. is_generated tr) list_obj)
              else (\<lambda>w1. (None, w1)))
    (or_else (any_tier env api (\<lambda>tr. True) list_obj)
             (direct_fetch api video_id [l, ''en'', ''en-US'', ''en-GB''])))))
     w0"
  unfolding fetch_transcript_segments_def Let_def
  by (simp only: assms not_True_eq_False if_False prod.case sum.case)

lemma demo_fetch_ok:
  "url tr \<noteq> ''translated'' \<Longrightarrow>
   fetch_with_retry no_pause (fetch (demo_api trs) tr) 5 (6 / 5) w
     = (Inr (Some [\<lparr>snippet_text = url tr, snippet_start = 0, snippet_duration = 1\<rparr>]), w)"
  by (simp add: fetch_with_retry_def demo_api_def caught_def eval_nat_numeral)

lemma demo_fetch_translated:
  assumes "url tr = ''translated''"
  shows "fetch_with_retry no_pause (fetch (demo_api trs) tr) 5 (6 / 5) w
     = (Inl (Exn OtherException ''HTTP Error 429: Too Many Requests''), w)"
proof -
  have t: "is_transient (Exn OtherException ''HTTP Error 429: Too Many Requests'')"
    by (simp add: is_transient_def is_rate_limit_def lower_def lower_char_def)
  have f: "fetch (demo_api trs) tr x
      = (Inl (Exn OtherException ''HTTP Error 429: Too Many Requests''), x)" for x :: 'a
    using assms by (simp add: demo_api_def)
  have p: "pause no_pause b i x = x" for b i and x :: 'a
    by (simp add: pause_def no_pause_def)
  show ?thesis
    by (simp add: fetch_with_retry_def f p t caught_def eval_nat_numeral)
qed



lemma fetch_projected_ignores_translate:
  "fetch_projected env (api\<lparr>translate := other\<rparr>) = fetch_projected env api"
  by (simp add: fetch_projected_def fun_eq_iff)

lemma exact_candidate_ignores_translate:
  "exact_candidate env (api\<lparr>translate := other\<rparr>) = exact_candidate env api"
  by (simp add: exact_candidate_def fetch_projected_ignores_translate fun_eq_iff
        split: sum.split)

lemma exact_tier_ignores_translate:
  "exact_tier env (api\<lparr>translate := other\<rparr>) = exact_tier env api"
  by (simp add: exact_tier_def exact_candidate_ignores_translate fun_eq_iff)

lemma any_candidate_ignores_translate:
  "any_candidate env (api\<lparr>translate := other\<rparr>) = any_candidate env api"
  by (simp add: any_candidate_def fetch_projected_ignores_translate fun_eq_iff)

lemma any_tier_ignores_translate:
  "any_tier env (api\<lparr>translate := other\<rparr>) = any_tier env api"
  by (simp add: any_tier_def any_candidate_ignores_translate fun_eq_iff)

lemma direct_fetch_ignores_translate:
  "direct_fetch (api\<lparr>translate := other\<rparr>) = direct_fetch api"
  by (simp add: direct_fetch_def fun_eq_iff)

lemma without_translate_tier:
  "fetch_transcript_segments env (api\<lparr>translate := other\<rparr>) video_id l True w
     = fetch_transcript_segments env api video_id l True w"
  by (simp add: fetch_transcript_segments_def supports_listing_def Let_def
        try_get_transcript_simple_def exact_tier_ignores_translate
        any_tier_ignores_translate direct_fetch_ignores_translate
        split: prod.split sum.split)

text \<open>
  C3. The listing has been obtained and no manual track of the preferred-language list
  was usable (tier 1 ended without a result, in world \<open>w1\<close>).
  With \<^verbatim>\<open>disable_translate = False\<close>: the loop of tier 2 reaches a translatable track
  \<open>tr\<close> whose lowered code differs from the lowered target, \<^verbatim>\<open>tr.translate\<close> returns the
  handle \<open>t\<close>, the fetch of \<open>t\<close> through the retry wrapper fails, and the fetch of \<open>tr\<close>
  itself through the retry wrapper, in the world the failed fetch left, returns data.
  Then the selector returns the projected items of the original track.
  With \<^verbatim>\<open>disable_translate = True\<close>: tier 3 starts in the very world tier 1 left, so its
  result is returned when it has one, and the result of the selector does not depend
  on what \<^verbatim>\<open>translate\<close> would do: it is never called.
\<close>

theorem translate_degrades_to_original:
  assumes "supports_listing api"
    and "list_transcripts api video_id w = (Inr list_obj, w0)"
    and "exact_tier env api find_manually_created_transcript list_obj
           [l, ''en'', ''en-US'', ''en-GB''] w0 = (None, w1)"
  shows "(list_obj = before @ tr # rest \<and>
          translate_tier env api l before w1 = (None, w2) \<and>
          is_translatable tr \<and>
          lower (language_code tr) \<noteq> lower (if l = [] then ''en'' else l) \<and>
          translate api tr (if l = [] then ''en'' else l) w2 = (Inr t, w3) \<and>
          fetch_with_retry env (fetch api t) 5 (6 / 5) w3 = (Inl e, w4) \<and>
          fetch_with_retry env (fetch api tr) 5 (6 / 5) w4 = (Inr (Some data), w5)
          \<longrightarrow> fetch_transcript_segments env api video_id l False w
                = (Some (map project data), w5)) \<and>
         (exact_tier env api find_generated_transcript list_obj
            [l, ''en'', ''en-US'', ''en-GB''] w1 = (Some segs, w6)
          \<longrightarrow> fetch_transcript_segments env api video_id l True w = (Some segs, w6)) \<and>
         fetch_transcript_segments env (api\<lparr>translate := other\<rparr>) video_id l True w
           = fetch_transcript_segments env api video_id l True w"
proof (intro conjI impI)
  assume a: "list_obj = before @ tr # rest \<and>
          translate_tier env api l before w1 = (None, w2) \<and>
          is_translatable tr \<and>
          lower (language_code tr) \<noteq> lower (if l = [] then ''en'' else l) \<and>
          translate api tr (if l = [] then ''en'' else l) w2 = (Inr t, w3) \<and>
          fetch_with_retry env (fetch api t) 5 (6 / 5) w3 = (Inl e, w4) \<and>
          fetch_with_retry env (fetch api tr) 5 (6 / 5) w4 = (Inr (Some data), w5)"
  have translated: "fetch_projected env api t w3 = (None, w4)"
    using a by (intro fetch_projected_None) simp
  have original: "fetch_projected env api tr w4 = (Some (map project data), w5)"
    using a by (intro fetch_projected_Some) simp
  have "or_else (fetch_projected env api t) (fetch_projected env api tr) w3
      = (Some (map project data), w5)"
    using translated original by (simp add: or_else_def)
  then have candidate: "translate_candidate env api l tr w2 = (Some (map project data), w5)"
    using a by (simp add: translate_candidate_def)
  have "translate_tier env api l list_obj w1
      = or_else (translate_tier env api l before) (translate_tier env api l (tr # rest)) w1"
    using a by (simp add: translate_tier_def first_success_append)
  also have "\<dots> = translate_tier env api l (tr # rest) w2"
    using a by (intro or_else_None) simp
  also have "\<dots> = (Some (map project data), w5)"
    unfolding translate_tier_def using candidate by (rule first_success_Cons_Some)
  finally have tier2: "translate_tier env api l list_obj w1 = (Some (map project data), w5)" .
  have "fetch_transcript_segments env api video_id l False w
      = or_else (exact_tier env api find_manually_created_transcript list_obj
                   [l, ''en'', ''en-US'', ''en-GB''])
         (or_else (translate_tier env api l list_obj)
         (or_else (exact_tier env api find_generated_transcript list_obj
                     [l, ''en'', ''en-US'', ''en-GB''])
         (or_else (if lower l = ''auto''
                   then or_else (any_tier env api (\<lambda>tr. \<not> is_generated tr) list_obj)
                          (any_tier env api (\<lambda>tr. is_generated tr) list_obj)
                   else (\<lambda>w1. (None, w1)))
         (or_else (any_tier env api (\<lambda>tr. True) list_obj)
                  (direct_fetch api video_id [l, ''en'', ''en-US'', ''en-GB'']))))) w0"
    unfolding listing_run [OF assms(1,2)]
    by (simp only: not_False_eq_True if_True)
  also have "\<dots> = or_else (translate_tier env api l list_obj)
         (or_else (exact_tier env api find_generated_transcript list_obj
                     [l, ''en'', ''en-US'', ''en-GB''])
         (or_else (if lower l = ''auto''
                   then or_else (any_tier env api (\<lambda>tr. \<not> is_generated tr) list_obj)
                          (any_tier env api (\<lambda>tr. is_generated tr) list_obj)
                   else (\<lambda>w1. (None, w1)))
         (or_else (any_tier env api (\<lambda>tr. True) list_obj)
                  (direct_fetch api video_id [l, ''en'', ''en-US'', ''en-GB''])))) w1"
    using assms(3) by (rule or_else_None)
  also have "\<dots> = (Some (map project data), w5)"
    using tier2 by (rule or_else_Some)
  finally show "fetch_transcript_segments env api video_id l False w
      = (Some (map project data), w5)" .
next
  assume g: "exact_tier env api find_generated_transcript list_obj
            [l, ''en'', ''en-US'', ''en-GB''] w1 = (Some segs, w6)"
  have "fetch_transcript_segments env api video_id l True w
      = or_else (exact_tier env api find_manually_created_transcript list_obj
                   [l, ''en'', ''en-US'', ''en-GB''])
         (or_else (\<lambda>w1. (None, w1))
         (or_else (exact_tier env api find_generated_transcript list_obj
                     [l, ''en'', ''en-US'', ''en-GB''])
         (or_else (if lower l = ''auto''
                   then or_else (any_tier env api (\<lambda>tr. \<not> is_generated tr) list_obj)
                          (any_tier env api (\<lambda>tr. is_generated tr) list_obj)
                   else (\<lambda>w1. (None, w1)))
         (or_else (any_tier env api (\<lambda>tr. True) list_obj)
                  (direct_fetch api video_id [l, ''en'', ''en-US'', ''en-GB'']))))) w0"
    unfolding listing_run [OF assms(1,2)]
    by (simp only: not_True_eq_False if_False)
  also have "\<dots> = or_else (\<lambda>w1. (None, w1))
         (or_else (exact_tier env api find_generated_transcript list_obj
                     [l, ''en'', ''en-US'', ''en-GB''])
         (or_else (if lower l = ''auto''
                   then or_else (any_tier env api (\<lambda>tr. \<not> is_generated tr) list_obj)
                          (any_tier env api (\<lambda>tr. is_generated tr) list_obj)
                   else (\<lambda>w1. (None, w1)))
         (or_else (any_tier env api (\<lambda>tr. True) list_obj)
                  (direct_fetch api video_id [l, ''en'', ''en-US'', ''en-GB''])))) w1"
    using assms(3) by (rule or_else_None)
  also have "\<dots> = (or_else (exact_tier env api find_generated_transcript list_obj
                     [l, ''en'', ''en-US'', ''en-GB''])
         (or_else (if lower l = ''auto''
                   then or_else (any_tier env api (\<lambda>tr. \<not> is_generated tr) list_obj)
                          (any_tier env api (\<lambda>tr. is_generated tr) list_obj)
                   else (\<lambda>w1. (None, w1)))
         (or_else (any_tier env api (\<lambda>tr. True) list_obj)
                  (direct_fetch api video_id [l, ''en'', ''en-US'', ''en-GB''])))) w1"
    by (rule or_else_None) (rule refl)
  also have "\<dots> = (Some segs, w6)"
    using g by (rule or_else_Some)
  finally show "fetch_transcript_segments env api video_id l True w = (Some segs, w6)" .
next
  show "fetch_transcript_segments env (api\<lparr>translate := other\<rparr>) video_id l True w
           = fetch_transcript_segments env api video_id l True w"
    by (rule without_translate_tier)
qed

text \<open>
  A video with a manual German track and a generated English track, asked for in
  French: with translation allowed the translated fetch is rate-limited five times and
  the German original is returned; with translation disabled the generated English
  track is returned.
\<close>

theorem translate_degrades_to_original_witness:
  "fetch_transcript_segments no_pause (demo_api [manual_de, generated_en]) ''V1'' ''fr'' False
     (0 :: nat)
   = (Some [\<lparr>text = ''manual-de'', start = 0, duration = Some 1\<rparr>], 0)
   \<and> fetch_transcript_segments no_pause (demo_api [manual_de, generated_en]) ''V1'' ''fr'' True
     (0 :: nat)
   = (Some [\<lparr>text = ''generated-en'', start = 0, duration = Some 1\<rparr>], 0)"
proof -
  let ?api = "demo_api [manual_de, generated_en] :: nat caption_api"
  let ?t = "manual_de\<lparr>language_code := ''fr'', url := ''translated''\<rparr>"
  have s: "supports_listing ?api"
    by (simp add: supports_listing_def demo_api_def)
  have l: "list_transcripts ?api ''V1'' 0 = (Inr [manual_de, generated_en], 0)"
    by (simp add: demo_api_def)
  have m: "exact_tier no_pause ?api find_manually_created_transcript [manual_de, generated_en]
      [''fr'', ''en'', ''en-US'', ''en-GB''] 0 = (None, 0)"
    by (simp add: exact_tier_def exact_candidate_def find_manually_created_transcript_def
          or_else_def manual_de_def generated_en_def)
  have h1: "[manual_de, generated_en] = [] @ manual_de # [generated_en]"
    by simp
  have h2: "translate_tier no_pause ?api ''fr'' [] 0 = (None, 0)"
    by (simp add: translate_tier_def)
  have h3: "is_translatable manual_de"
    by (simp add: manual_de_def)
  have h4: "lower (language_code manual_de) \<noteq> lower (if ''fr'' = [] then ''en'' else ''fr'')"
    by (simp add: manual_de_def lower_def lower_char_def)
  have h5: "translate ?api manual_de (if ''fr'' = [] then ''en'' else ''fr'') 0 = (Inr ?t, 0)"
    by (simp add: demo_api_def)
  have h6: "fetch_with_retry no_pause (fetch ?api ?t) 5 (6 / 5) 0
      = (Inl (Exn OtherException ''HTTP Error 429: Too Many Requests''), 0)"
    by (rule demo_fetch_translated) simp
  have h7: "fetch_with_retry no_pause (fetch ?api manual_de) 5 (6 / 5) 0
      = (Inr (Some [\<lparr>snippet_text = url manual_de, snippet_start = 0, snippet_duration = 1\<rparr>]), 0)"
    by (rule demo_fetch_ok) (simp add: manual_de_def)
  have f: "fetch_projected no_pause ?api generated_en 0
      = (Some (map project
           [\<lparr>snippet_text = url generated_en, snippet_start = 0, snippet_duration = 1\<rparr>]), 0)"
    by (rule fetch_projected_Some, rule demo_fetch_ok) (simp add: generated_en_def)
  have g: "exact_tier no_pause ?api find_generated_transcript [manual_de, generated_en]
      [''fr'', ''en'', ''en-US'', ''en-GB''] 0
      = (Some (map project
           [\<lparr>snippet_text = url generated_en, snippet_start = 0, snippet_duration = 1\<rparr>]), 0)"
    using f
    by (simp add: exact_tier_def exact_candidate_def find_generated_transcript_def
          or_else_def manual_de_def generated_en_def)
  note main = translate_degrades_to_original [OF s l m]
  have hyps: "[manual_de, generated_en] = [] @ manual_de # [generated_en] \<and>
      translate_tier no_pause ?api ''fr'' [] 0 = (None, 0) \<and>
      is_translatable manual_de \<and>
      lower (language_code manual_de) \<noteq> lower (if ''fr'' = [] then ''en'' else ''fr'') \<and>
      translate ?api manual_de (if ''fr'' = [] then ''en'' else ''fr'') 0 = (Inr ?t, 0) \<and>
      fetch_with_retry no_pause (fetch ?api ?t) 5 (6 / 5) 0
        = (Inl (Exn OtherException ''HTTP Error 429: Too Many Requests''), 0) \<and>
      fetch_with_retry no_pause (fetch ?api manual_de) 5 (6 / 5) 0
        = (Inr (Some [\<lparr>snippet_text = url manual_de, snippet_start = 0,
                        snippet_duration = 1\<rparr>]), 0)"
    by (intro conjI) (rule h1, rule h2, rule h3, rule h4, rule h5, rule h6, rule h7)
  have a: "fetch_transcript_segments no_pause ?api ''V1'' ''fr'' False 0
      = (Some (map project
           [\<lparr>snippet_text = url manual_de, snippet_start = 0, snippet_duration = 1\<rparr>]), 0)"
    by (rule main [THEN conjunct1, rule_format, OF hyps])
  have b: "fetch_transcript_segments no_pause ?api ''V1'' ''fr'' True 0
      = (Some (map project
           [\<lparr>snippet_text = url generated_en, snippet_start = 0, snippet_duration = 1\<rparr>]), 0)"
    by (rule main [THEN conjunct2, THEN conjunct1, rule_format]) (rule g)
  show ?thesis
    using a b by (simp add: project_def manual_de_def generated_en_def)
qed


section \<open>Properties of the route\<close>

lemma truthy_the_list:
  "truthy data \<Longrightarrow> the_list data \<noteq> []"
  by (cases data) (simp_all add: truthy_def the_list_def)

lemma truthy_Some:
  "truthy (Some xs) = (xs \<noteq> [])"
  by (simp add: truthy_def)

lemma not_truthy_None:
  "\<not> truthy None"
  by (simp add: truthy_def)

lemma fail_cache_get_remaining_pos:
  assumes "fail_cache_get time video_id l dt s = (Some r, s')"
  shows "1 \<le> r"
  using assms
  by (auto simp add: fail_cache_get_def Let_def split: option.splits prod.splits if_splits)

lemma fail_cache_get_cache:
  assumes "fail_cache_get time video_id l dt s = (r, s')"
  shows "cache s' = cache s"
  using assms
  by (auto simp add: fail_cache_get_def Let_def split: option.splits prod.splits if_splits)

lemma cache_get_stores:
  assumes "cache_get time video_id l dt s = (data, s')"
  shows "stores_nonempty s s'"
  using assms
  by (auto simp add: cache_get_def stores_nonempty_def Let_def
        split: option.splits prod.splits if_splits)

lemma stores_nonempty_world:
  "stores_nonempty s (s\<lparr>world := w\<rparr>)"
  by (simp add: stores_nonempty_def)

lemma stores_nonempty_cache_set:
  assumes "truthy data"
  shows "stores_nonempty s (cache_set time video_id l dt (the_list data) (s\<lparr>world := w\<rparr>))"
  using truthy_the_list [OF assms]
  by (simp add: cache_set_def stores_nonempty_def Let_def split: prod.splits)

lemma stores_nonempty_fail_cache_set:
  "stores_nonempty s (fail_cache_set time video_id l dt c (s\<lparr>world := w\<rparr>))"
  by (simp add: fail_cache_set_def stores_nonempty_def Let_def split: prod.splits)

lemma stores_nonempty_trans:
  assumes "stores_nonempty a b" and "stores_nonempty b c"
  shows "stores_nonempty a c"
  using assms unfolding stores_nonempty_def by blast

lemma stores_nonempty_same_cache:
  assumes "cache s' = cache s"
  shows "stores_nonempty s s'"
  using assms by (simp add: stores_nonempty_def)

lemma stores_nonempty_invariant:
  assumes "stores_nonempty s s'" and "cache_nonempty s"
  shows "cache_nonempty s'"
  using assms unfolding stores_nonempty_def cache_nonempty_def by blast

lemma stt_or_cooldown_stores:
  assumes "stt_or_cooldown time senv key videoId l dt sttFallback sttBackend c hdr detail s
             = (response, s')"
  shows "stores_nonempty s s' \<and> (\<forall>segs. response = Segments segs \<longrightarrow> segs \<noteq> [])"
proof -
  obtain r w where a: "stt_attempt senv key videoId l sttFallback sttBackend (world s) = (r, w)"
    by (cases "stt_attempt senv key videoId l sttFallback sttBackend (world s)")
  show ?thesis
  proof (cases r)
    case (Inl e)
    then show ?thesis
      using assms a by (auto simp add: stt_or_cooldown_def stores_nonempty_world)
  next
    case (Inr segs)
    show ?thesis
    proof (cases "truthy segs")
      case True
      then show ?thesis
        using assms a Inr
        by (auto simp add: stt_or_cooldown_def stores_nonempty_cache_set truthy_the_list)
    next
      case False
      then show ?thesis
        using assms a Inr
        by (auto simp add: stt_or_cooldown_def stores_nonempty_fail_cache_set)
    qed
  qed
qed

lemma force_stt_stores:
  assumes "force_stt time senv key videoId l dt sttBackend s = (response, s')"
  shows "stores_nonempty s s' \<and> (\<forall>segs. response = Segments segs \<longrightarrow> segs \<noteq> [])"
proof (cases "stt_enabled senv (world s)")
  case False
  then show ?thesis
    using assms by (auto simp add: force_stt_def stores_nonempty_def)
next
  case True
  obtain r w where a:
    "stt_dispatch senv key (stt_backend senv sttBackend (world s)) videoId l (world s) = (r, w)"
    by (cases "stt_dispatch senv key (stt_backend senv sttBackend (world s)) videoId l (world s)")
  show ?thesis
  proof (cases r)
    case (Inl e)
    then show ?thesis
      using assms a True by (auto simp add: force_stt_def stores_nonempty_world)
  next
    case (Inr segs)
    show ?thesis
    proof (cases "truthy segs")
      case t: True
      then show ?thesis
        using assms a Inr True
        by (auto simp add: force_stt_def stores_nonempty_cache_set truthy_the_list)
    next
      case f: False
      then show ?thesis
        using assms a Inr True
        by (auto simp add: force_stt_def stores_nonempty_world)
    qed
  qed
qed

lemma upstream_fetch_stores:
  assumes "upstream_fetch time senv fetch_segments key videoId l dt sttFallback sttBackend s
             = (response, s')"
  shows "stores_nonempty s s' \<and> (\<forall>segs. response = Segments segs \<longrightarrow> segs \<noteq> [])"
proof -
  obtain r w where a: "fetch_segments videoId l dt (world s) = (r, w)"
    by (cases "fetch_segments videoId l dt (world s)")
  show ?thesis
  proof (cases r)
    case (Inl e)
    then have "stt_or_cooldown time senv key videoId l dt sttFallback sttBackend 120 ''120''
        ''Upstream error. Please retry later.'' (s\<lparr>world := w\<rparr>) = (response, s')"
      using assms a by (simp add: upstream_fetch_def)
    from stt_or_cooldown_stores [OF this]
    have later: "stores_nonempty (s\<lparr>world := w\<rparr>) s'"
      and nonempty: "\<forall>segs. response = Segments segs \<longrightarrow> segs \<noteq> []"
      by simp_all
    show ?thesis
      using stores_nonempty_trans [OF stores_nonempty_world later] nonempty by simp
  next
    case (Inr data)
    show ?thesis
    proof (cases "truthy data")
      case True
      then show ?thesis
        using assms a Inr
        by (auto simp add: upstream_fetch_def stores_nonempty_cache_set truthy_the_list)
    next
      case False
      then have "stt_or_cooldown time senv key videoId l dt sttFallback sttBackend 300 ''300''
          (''Transcript temporarily unavailable (throttled or no captions). '' @
           ''STT fallback may be disabled or unavailable.'') (s\<lparr>world := w\<rparr>) = (response, s')"
        using assms a Inr by (simp add: upstream_fetch_def)
      from stt_or_cooldown_stores [OF this]
      have later: "stores_nonempty (s\<lparr>world := w\<rparr>) s'"
        and nonempty: "\<forall>segs. response = Segments segs \<longrightarrow> segs \<noteq> []"
        by simp_all
      show ?thesis
        using stores_nonempty_trans [OF stores_nonempty_world later] nonempty by simp
    qed
  qed
qed

lemma transcript_with_stores:
  assumes "transcript_with time senv fetch_segments request videoId l dt sttFallback sttBackend
             forceSTT s = (response, s')"
  shows "stores_nonempty s s' \<and> (\<forall>segs. response = Segments segs \<longrightarrow> segs \<noteq> [])"
proof -
  obtain data s1 where c: "cache_get time videoId l dt s = (data, s1)"
    by (cases "cache_get time videoId l dt s")
  note s1 = cache_get_stores [OF c]
  show ?thesis
  proof (cases "truthy data")
    case True
    then show ?thesis
      using assms c s1 by (auto simp add: transcript_with_def truthy_the_list)
  next
    case False
    obtain remaining s2 where f: "fail_cache_get time videoId l dt s1 = (remaining, s2)"
      by (cases "fail_cache_get time videoId l dt s1")
    have s2: "stores_nonempty s s2"
      using s1 stores_nonempty_same_cache [OF fail_cache_get_cache [OF f]]
      by (rule stores_nonempty_trans)
    show ?thesis
    proof (cases "remaining \<noteq> None \<and> remaining \<noteq> Some 0")
      case True
      then show ?thesis
        using assms c f False s2 by (auto simp add: transcript_with_def)
    next
      case no_cooldown: False
      show ?thesis
      proof (cases forceSTT)
        case True
        then have "force_stt time senv (gem_override request) videoId l dt sttBackend s2
            = (response, s')"
          using assms c f False no_cooldown by (auto simp add: transcript_with_def)
        from force_stt_stores [OF this]
        have later: "stores_nonempty s2 s'"
          and nonempty: "\<forall>segs. response = Segments segs \<longrightarrow> segs \<noteq> []"
          by simp_all
        show ?thesis
          using stores_nonempty_trans [OF s2 later] nonempty by simp
      next
        case not_forced: False
        then have "upstream_fetch time senv fetch_segments (gem_override request) videoId l dt
            sttFallback sttBackend s2 = (response, s')"
          using assms c f False no_cooldown by (auto simp add: transcript_with_def)
        from upstream_fetch_stores [OF this]
        have later: "stores_nonempty s2 s'"
          and nonempty: "\<forall>segs. response = Segments segs \<longrightarrow> segs \<noteq> []"
          by simp_all
        show ?thesis
          using stores_nonempty_trans [OF s2 later] nonempty by simp
      qed
    qed
  qed
qed

lemma reachable_cache_nonempty:
  assumes "reachable time senv fetch_segments s"
  shows "cache_nonempty s"
  using assms
proof (induction rule: reachable.induct)
  case (start w)
  show ?case
    by (simp add: cache_nonempty_def empty_state_def)
next
  case (served s request videoId lang disableTranslate sttFallback sttBackend forceSTT response s')
  from transcript_with_stores [OF served.hyps(2)] have "stores_nonempty s s'"
    by simp
  then show ?case
    using served.IH by (rule stores_nonempty_invariant)
next
  case (outside s w)
  then show ?case
    by (simp add: cache_nonempty_def)
qed

lemma demo_no_tracks:
  "fetch_transcript_segments env (demo_api []) videoId l dt w = (None, w)"
  by (simp add: fetch_transcript_segments_def supports_listing_def demo_api_def
        exact_tier_def exact_candidate_def find_manually_created_transcript_def
        find_generated_transcript_def translate_tier_def any_tier_def
        direct_fetch_def or_else_def)

lemma strip_abc:
  "strip ''abc'' = ''abc''"
  by (simp add: strip_def is_space_def)

lemma int_str_abc:
  "int_str ''abc''
     = Inl (Exn ValueError
         (''invalid literal for int() with base 10: '' @ [CHR 0x27] @ ''abc'' @ [CHR 0x27]))"
  by (simp add: int_str_def strip_abc digit_value_def Let_def)

lemma gemini_stt_bad_segment_sec:
  "gemini_stt (demo_stt [(''GEMINI_SEGMENT_SEC'', ''abc'')] gemini_answer whisper_answer)
       videoId l key w
     = (Inl (Exn ValueError
          (''invalid literal for int() with base 10: '' @ [CHR 0x27] @ ''abc'' @ [CHR 0x27])), w)"
  by (simp add: gemini_stt_def demo_stt_def getenv_or_def int_str_abc)

lemma stt_attempt_gemini_bad_segment_sec:
  "stt_attempt (demo_stt [(''GEMINI_SEGMENT_SEC'', ''abc'')] gemini_answer whisper_answer) key
       videoId l True (Some ''gemini'') w
     = (Inl (Exn ValueError
          (''invalid literal for int() with base 10: '' @ [CHR 0x27] @ ''abc'' @ [CHR 0x27])), w)"
proof -
  have enabled: "stt_enabled
      (demo_stt [(''GEMINI_SEGMENT_SEC'', ''abc'')] gemini_answer whisper_answer) w"
    by (simp add: stt_enabled_def demo_stt_def getenv_or_def strip_def is_space_def)
  have backend: "stt_backend
      (demo_stt [(''GEMINI_SEGMENT_SEC'', ''abc'')] gemini_answer whisper_answer)
      (Some ''gemini'') w = ''gemini''"
    by (simp add: stt_backend_def strip_def is_space_def lower_def lower_char_def)
  show ?thesis
    unfolding stt_attempt_def Let_def stt_dispatch_def
    by (simp only: enabled backend simp_thms if_True gemini_stt_bad_segment_sec)
qed

lemma stt_attempt_off:
  "stt_attempt senv key videoId l False sttBackend w = (Inr None, w)"
  by (simp add: stt_attempt_def)

text \<open>
  C4, as stated, fails: the video has no captions, the backend is Gemini and the
  variable \<^verbatim>\<open>GEMINI_SEGMENT_SEC\<close> is \<^verbatim>\<open>abc\<close>. The audio file is downloaded,
  \<^verbatim>\<open>int("abc")\<close> raises \<^verbatim>\<open>ValueError\<close> inside a \<^verbatim>\<open>try\<close> that has a \<^verbatim>\<open>finally\<close>
  clause only, and the exception leaves the route: no segments, no status 429, and
  the failure cache is still empty. The same happens on the exception path, for a
  callee that raises.
\<close>

theorem transcript_cooldown_counterexample:
  "transcript list_clock (demo_stt [(''GEMINI_SEGMENT_SEC'', ''abc'')] None None) no_pause
       (demo_api []) no_request ''V1'' ''en'' False True (Some ''gemini'') False (empty_state [])
     = (Uncaught (Exn ValueError
          (''invalid literal for int() with base 10: '' @ [CHR 0x27] @ ''abc'' @ [CHR 0x27])),
        empty_state [])
   \<and> transcript_with list_clock (demo_stt [(''GEMINI_SEGMENT_SEC'', ''abc'')] None None)
       (\<lambda>videoId l dt w. (Inl (Exn OtherException ''HTTP Error 429: Too Many Requests''), w))
       no_request ''V1'' ''en'' False True (Some ''gemini'') False (empty_state [])
     = (Uncaught (Exn ValueError
          (''invalid literal for int() with base 10: '' @ [CHR 0x27] @ ''abc'' @ [CHR 0x27])),
        empty_state [])"
  by (simp add: transcript_def transcript_with_def demo_no_tracks cache_get_def
        fail_cache_get_def empty_state_def truthy_def upstream_fetch_def stt_or_cooldown_def
        stt_attempt_gemini_bad_segment_sec)

text \<open>
  C4, amended. The route runs the upstream fetch: the success cache gives nothing for
  the key, the failure cache has no active entry for it, and \<^verbatim>\<open>forceSTT\<close> is false. The
  fallback stage ends without an exception and without segments (it is switched off,
  or the backend returns \<^verbatim>\<open>None\<close> or the empty list), and the clock reads \<open>now\<close> in
  \<^verbatim>\<open>fail_cache_set\<close>. Then: when the callee raised, the response is status 429 with
  \<^verbatim>\<open>Retry-After: 120\<close> and the failure cache holds \<open>(now, 120)\<close> for the key; when it
  returned \<^verbatim>\<open>None\<close> or the empty list, the response is status 429 with
  \<^verbatim>\<open>Retry-After: 300\<close> and the failure cache holds \<open>(now, 300)\<close> for the key.
\<close>

theorem transcript_cooldown:
  assumes "cache_get time videoId l dt s = (data, s1)" and "\<not> truthy data"
    and "fail_cache_get time videoId l dt s1 = (None, s2)"
    and "fetch_segments videoId l dt (world s2) = (outcome, w3)"
    and "stt_attempt senv (gem_override request) videoId l sttFallback sttBackend w3
           = (Inr segs, w4)"
    and "\<not> truthy segs"
    and "time w4 = (now, w5)"
  shows "((\<exists>e. outcome = Inl e) \<longrightarrow>
            transcript_with time senv fetch_segments request videoId l dt sttFallback sttBackend
              False s
            = (HTTPException 429 ''Upstream error. Please retry later.''
                 [(''Retry-After'', ''120'')],
               s2\<lparr>fail_cache := (fail_cache s2)((videoId, l, dt) \<mapsto> (now, 120)),
                  world := w5\<rparr>)) \<and>
         (outcome = Inr None \<or> outcome = Inr (Some []) \<longrightarrow>
            transcript_with time senv fetch_segments request videoId l dt sttFallback sttBackend
              False s
            = (HTTPException 429
                 (''Transcript temporarily unavailable (throttled or no captions). '' @
                  ''STT fallback may be disabled or unavailable.'')
                 [(''Retry-After'', ''300'')],
               s2\<lparr>fail_cache := (fail_cache s2)((videoId, l, dt) \<mapsto> (now, 300)),
                  world := w5\<rparr>))"
proof -
  have route: "transcript_with time senv fetch_segments request videoId l dt sttFallback
      sttBackend False s
      = upstream_fetch time senv fetch_segments (gem_override request) videoId l dt sttFallback
          sttBackend s2"
    using assms(1,2,3) by (simp add: transcript_with_def)
  have cooldown: "stt_or_cooldown time senv (gem_override request) videoId l dt sttFallback
      sttBackend c hdr detail (s2\<lparr>world := w3\<rparr>)
      = (HTTPException 429 detail [(''Retry-After'', hdr)],
         s2\<lparr>fail_cache := (fail_cache s2)((videoId, l, dt) \<mapsto>
              (now, if c = 0 then 300 else c)), world := w5\<rparr>)" for c hdr detail
    using assms(5,6,7)
    by (simp add: stt_or_cooldown_def fail_cache_set_def FAIL_TTL_SECONDS_DEFAULT_def)
  show ?thesis
  proof (intro conjI impI)
    assume "\<exists>e. outcome = Inl e"
    then obtain e where "outcome = Inl e" ..
    then show "transcript_with time senv fetch_segments request videoId l dt sttFallback
        sttBackend False s
        = (HTTPException 429 ''Upstream error. Please retry later.''
             [(''Retry-After'', ''120'')],
           s2\<lparr>fail_cache := (fail_cache s2)((videoId, l, dt) \<mapsto> (now, 120)),
              world := w5\<rparr>)"
      using assms(4) by (simp add: route upstream_fetch_def cooldown)
  next
    assume "outcome = Inr None \<or> outcome = Inr (Some [])"
    then obtain d where "outcome = Inr d" and "\<not> truthy d"
      by (auto simp add: truthy_def)
    then show "transcript_with time senv fetch_segments request videoId l dt sttFallback
        sttBackend False s
        = (HTTPException 429
             (''Transcript temporarily unavailable (throttled or no captions). '' @
              ''STT fallback may be disabled or unavailable.'')
             [(''Retry-After'', ''300'')],
           s2\<lparr>fail_cache := (fail_cache s2)((videoId, l, dt) \<mapsto> (now, 300)),
              world := w5\<rparr>)"
      using assms(4) by (simp add: route upstream_fetch_def cooldown)
  qed
qed

text \<open>
  Two runs from the empty state, with the fallback switched off and the clock at 1000:
  a callee that raises, and the selector on a video without tracks.
\<close>

theorem transcript_cooldown_witness:
  "transcript_with list_clock (demo_stt [] None None)
       (\<lambda>videoId l dt w. (Inl (Exn OtherException ''HTTP Error 429: Too Many Requests''), w))
       no_request ''V1'' ''en'' False False None False (empty_state [1000])
     = (HTTPException 429 ''Upstream error. Please retry later.'' [(''Retry-After'', ''120'')],
        \<lparr>cache = Map.empty, fail_cache = [(''V1'', ''en'', False) \<mapsto> (1000, 120)],
         world = []\<rparr>)
   \<and> transcript_with list_clock (demo_stt [] None None)
       (\<lambda>videoId l dt w. (Inr None, w))
       no_request ''V1'' ''en'' False False None False (empty_state [1000])
     = (HTTPException 429
          (''Transcript temporarily unavailable (throttled or no captions). '' @
           ''STT fallback may be disabled or unavailable.'')
          [(''Retry-After'', ''300'')],
        \<lparr>cache = Map.empty, fail_cache = [(''V1'', ''en'', False) \<mapsto> (1000, 300)],
         world = []\<rparr>)"
proof -
  let ?s = "empty_state [1000 :: real]"
  have c: "cache_get list_clock ''V1'' ''en'' False ?s = (None, ?s)"
    by (simp add: cache_get_def empty_state_def)
  have f: "fail_cache_get list_clock ''V1'' ''en'' False ?s = (None, ?s)"
    by (simp add: fail_cache_get_def empty_state_def)
  have a: "stt_attempt (demo_stt [] None None) (gem_override no_request) ''V1'' ''en'' False None
      (world ?s) = (Inr None, [1000])"
    by (simp add: stt_attempt_off empty_state_def)
  have t: "list_clock [1000 :: real] = (1000, [])"
    by simp
  show ?thesis
    using transcript_cooldown [where fetch_segments = "\<lambda>videoId l dt w.
          (Inl (Exn OtherException ''HTTP Error 429: Too Many Requests''), w)"
        and outcome = "Inl (Exn OtherException ''HTTP Error 429: Too Many Requests'')"
        and ?w3.0 = "world ?s",
        OF c not_truthy_None f _ a not_truthy_None t]
      transcript_cooldown [where fetch_segments = "\<lambda>videoId l dt w. (Inr None, w)"
        and outcome = "Inr None" and ?w3.0 = "world ?s",
        OF c not_truthy_None f _ a not_truthy_None t]
    by (simp add: empty_state_def)
qed

text \<open>
  C9. In every state the service can reach, for a request with \<^verbatim>\<open>forceSTT = True\<close>:
  when the success cache holds an entry for the key and the clock, read once, shows
  that at most 1800 seconds have passed since it was stored, the response is the
  cached list, and the state afterwards is the state before with that one reading of
  the clock taken: no backend ran, and the caches are as they were. When the success
  cache gives nothing and \<^verbatim>\<open>fail_cache_get\<close> returns a remaining time, the response is
  status 429 with that time in \<^verbatim>\<open>Retry-After\<close>, and the state is the one
  \<^verbatim>\<open>fail_cache_get\<close> left.
\<close>

theorem force_stt_after_caches:
  assumes "reachable time senv fetch_segments s"
  shows "(cache s (videoId, l, dt) = Some (ts, data) \<and> time (world s) = (now, w1) \<and>
          now - ts \<le> CACHE_TTL_SECONDS
          \<longrightarrow> transcript_with time senv fetch_segments request videoId l dt sttFallback
                sttBackend True s
              = (Segments data, s\<lparr>world := w1\<rparr>)) \<and>
         (cache_get time videoId l dt s = (None, s1) \<and>
          fail_cache_get time videoId l dt s1 = (Some remaining, s2)
          \<longrightarrow> transcript_with time senv fetch_segments request videoId l dt sttFallback
                sttBackend True s
              = (HTTPException 429 ''Upstream rate limited recently. Please retry later.''
                   [(''Retry-After'', str_int remaining)], s2))"
proof (intro conjI impI)
  assume a: "cache s (videoId, l, dt) = Some (ts, data) \<and> time (world s) = (now, w1) \<and>
          now - ts \<le> CACHE_TTL_SECONDS"
  have "cache_nonempty s"
    using assms by (rule reachable_cache_nonempty)
  then have "data \<noteq> []"
    using a unfolding cache_nonempty_def by blast
  then have t: "truthy (Some data)"
    by (simp add: truthy_def)
  have "cache_get time videoId l dt s = (Some data, s\<lparr>world := w1\<rparr>)"
    using a by (simp add: cache_get_def)
  then show "transcript_with time senv fetch_segments request videoId l dt sttFallback
      sttBackend True s = (Segments data, s\<lparr>world := w1\<rparr>)"
    using t by (simp add: transcript_with_def the_list_def)
next
  assume b: "cache_get time videoId l dt s = (None, s1) \<and>
          fail_cache_get time videoId l dt s1 = (Some remaining, s2)"
  then have "1 \<le> remaining"
    using fail_cache_get_remaining_pos by blast
  then have "remaining \<noteq> 0"
    by simp
  then show "transcript_with time senv fetch_segments request videoId l dt sttFallback
      sttBackend True s
      = (HTTPException 429 ''Upstream rate limited recently. Please retry later.''
           [(''Retry-After'', str_int remaining)], s2)"
    using b by (simp add: transcript_with_def not_truthy_None)
qed

text \<open>
  Two states reached by one request each from the empty state: one with a cached
  segment stored at time 10, asked again with \<^verbatim>\<open>forceSTT\<close> at time 20; one with a
  cooldown of 300 seconds recorded at time 10, asked again with \<^verbatim>\<open>forceSTT\<close> when the
  clock reads 20 and then 30.
\<close>

theorem force_stt_after_caches_witness:
  "transcript_with list_clock (demo_stt [] None None)
       (\<lambda>videoId l dt w. (Inr (Some [\<lparr>text = ''hello'', start = 0, duration = Some 2\<rparr>]), w))
       no_request ''V1'' ''en'' False True None True
       \<lparr>cache = [(''V1'', ''en'', False) \<mapsto>
                   (10, [\<lparr>text = ''hello'', start = 0, duration = Some 2\<rparr>])],
        fail_cache = Map.empty, world = [20]\<rparr>
     = (Segments [\<lparr>text = ''hello'', start = 0, duration = Some 2\<rparr>],
        \<lparr>cache = [(''V1'', ''en'', False) \<mapsto>
                    (10, [\<lparr>text = ''hello'', start = 0, duration = Some 2\<rparr>])],
         fail_cache = Map.empty, world = []\<rparr>)
   \<and> transcript_with list_clock (demo_stt [] None None) (\<lambda>videoId l dt w. (Inr None, w))
       no_request ''V1'' ''en'' False False None True
       \<lparr>cache = Map.empty, fail_cache = [(''V1'', ''en'', False) \<mapsto> (10, 300)],
        world = [20, 30]\<rparr>
     = (HTTPException 429 ''Upstream rate limited recently. Please retry later.''
          [(''Retry-After'', ''280'')],
        \<lparr>cache = Map.empty, fail_cache = [(''V1'', ''en'', False) \<mapsto> (10, 300)],
         world = []\<rparr>)"
proof -
  let ?seg = "\<lparr>text = ''hello'', start = 0, duration = Some 2\<rparr>"
  let ?senv = "demo_stt [] None None :: real list stt_env"
  let ?hit = "\<lambda>videoId l dt w. (Inr (Some [?seg]) :: exn + segment list option, w :: real list)"
  let ?miss = "\<lambda>videoId l dt w. (Inr None :: exn + segment list option, w :: real list)"
  let ?sa = "\<lparr>cache = [(''V1'', ''en'', False) \<mapsto> (10, [?seg])],
    fail_cache = Map.empty, world = [20 :: real]\<rparr>"
  let ?sb = "\<lparr>cache = Map.empty, fail_cache = [(''V1'', ''en'', False) \<mapsto> (10, 300)],
    world = [20 :: real, 30]\<rparr>"
  have "transcript_with list_clock ?senv ?hit no_request ''V1'' ''en'' False False None False
      (empty_state [10, 20]) = (Segments [?seg], ?sa)"
    by (simp add: transcript_with_def cache_get_def fail_cache_get_def empty_state_def
          truthy_def the_list_def upstream_fetch_def cache_set_def)
  with reachable.start have ra: "reachable list_clock ?senv ?hit ?sa"
    by (rule reachable.served)
  have "transcript_with list_clock ?senv ?miss no_request ''V1'' ''en'' False False None False
      (empty_state [10, 20, 30])
      = (HTTPException 429
           (''Transcript temporarily unavailable (throttled or no captions). '' @
            ''STT fallback may be disabled or unavailable.'')
           [(''Retry-After'', ''300'')], ?sb)"
    by (simp add: transcript_with_def cache_get_def fail_cache_get_def empty_state_def
          truthy_def upstream_fetch_def stt_or_cooldown_def stt_attempt_off fail_cache_set_def)
  with reachable.start have rb: "reachable list_clock ?senv ?miss ?sb"
    by (rule reachable.served)
  have a: "cache ?sa (''V1'', ''en'', False) = Some (10, [?seg]) \<and>
      list_clock (world ?sa) = (20, []) \<and> 20 - 10 \<le> CACHE_TTL_SECONDS"
    by (simp add: CACHE_TTL_SECONDS_def)
  have b: "cache_get list_clock ''V1'' ''en'' False ?sb = (None, ?sb) \<and>
      fail_cache_get list_clock ''V1'' ''en'' False ?sb = (Some 280, ?sb\<lparr>world := []\<rparr>)"
    by (simp add: cache_get_def fail_cache_get_def py_int_def)
  have digits: "str_int 280 = ''280''"
    by (simp add: str_int_def str_nat.simps)
  show ?thesis
    using force_stt_after_caches [OF ra, THEN conjunct1, rule_format, OF a]
      force_stt_after_caches [OF rb, THEN conjunct2, rule_format, OF b]
    by (simp add: digits)
qed

text \<open>
  C10. Whatever the request and the state, every entry of the success cache after the
  route has run either was there before, unchanged, or holds a non-empty list; and
  when the response is a list of segments, the list is not empty. A selector that
  returns the empty list is treated as one that returns \<^verbatim>\<open>None\<close>: the route takes the
  no-data path, with the fallback and the cooldown of 300 seconds.
\<close>

theorem transcript_never_empty:
  assumes "transcript_with time senv fetch_segments request videoId l dt sttFallback sttBackend
             forceSTT s = (response, s')"
  shows "(\<forall>k ts data. cache s' k = Some (ts, data)
            \<longrightarrow> cache s k = Some (ts, data) \<or> data \<noteq> []) \<and>
         (\<forall>segs. response = Segments segs \<longrightarrow> segs \<noteq> []) \<and>
         (cache_nonempty s \<longrightarrow> cache_nonempty s') \<and>
         transcript_with time senv (\<lambda>videoId l dt w. (Inr (Some []), after w)) request videoId l
           dt sttFallback sttBackend forceSTT s
         = transcript_with time senv (\<lambda>videoId l dt w. (Inr None, after w)) request videoId l
             dt sttFallback sttBackend forceSTT s"
proof (intro conjI)
  note stores = transcript_with_stores [OF assms]
  from stores show "\<forall>k ts data. cache s' k = Some (ts, data)
      \<longrightarrow> cache s k = Some (ts, data) \<or> data \<noteq> []"
    by (simp add: stores_nonempty_def)
  from stores show "\<forall>segs. response = Segments segs \<longrightarrow> segs \<noteq> []"
    by simp
  from stores have "stores_nonempty s s'"
    by simp
  then show "cache_nonempty s \<longrightarrow> cache_nonempty s'"
    using stores_nonempty_invariant by (intro impI)
  have "upstream_fetch time senv (\<lambda>videoId l dt w. (Inr (Some []), after w)) key videoId l dt
          sttFallback sttBackend s0
      = upstream_fetch time senv (\<lambda>videoId l dt w. (Inr None, after w)) key videoId l dt
          sttFallback sttBackend s0" for key s0
    by (simp add: upstream_fetch_def truthy_def)
  then show "transcript_with time senv (\<lambda>videoId l dt w. (Inr (Some []), after w)) request
        videoId l dt sttFallback sttBackend forceSTT s
      = transcript_with time senv (\<lambda>videoId l dt w. (Inr None, after w)) request videoId l
          dt sttFallback sttBackend forceSTT s"
    by (simp add: transcript_with_def Let_def split: prod.split)
qed

text \<open>
  A run in which the selector returns the empty list: the route goes on to the
  fallback, Whisper returns one segment, and that list is cached and returned.
\<close>

theorem transcript_never_empty_witness:
  "transcript_with list_clock
       (demo_stt [] None (Some [\<lparr>text = ''hello'', start = 0, duration = Some 2\<rparr>]))
       (\<lambda>videoId l dt w. (Inr (Some []), w))
       no_request ''V1'' ''en'' False True None False (empty_state [1000])
     = (Segments [\<lparr>text = ''hello'', start = 0, duration = Some 2\<rparr>],
        \<lparr>cache = [(''V1'', ''en'', False) \<mapsto>
                    (1000, [\<lparr>text = ''hello'', start = 0, duration = Some 2\<rparr>])],
         fail_cache = Map.empty, world = []\<rparr>)
   \<and> cache_nonempty
        \<lparr>cache = [(''V1'', ''en'', False) \<mapsto>
                    (1000, [\<lparr>text = ''hello'', start = 0, duration = Some 2\<rparr>])],
         fail_cache = Map.empty, world = ([] :: real list)\<rparr>"
proof -
  let ?senv = "demo_stt [] None (Some [\<lparr>text = ''hello'', start = 0, duration = Some 2\<rparr>])
    :: real list stt_env"
  have enabled: "stt_enabled ?senv w" for w
    by (simp add: stt_enabled_def demo_stt_def getenv_or_def strip_def is_space_def)
  have backend: "stt_backend ?senv None w = ''openai''" for w
    by (simp add: stt_backend_def demo_stt_def getenv_or_def strip_def is_space_def lower_def
          lower_char_def)
  have whisper: "stt_fallback ?senv ''V1'' ''en'' w
      = (Inr (Some [\<lparr>text = ''hello'', start = 0, duration = Some 2\<rparr>]), w)" for w
    by (simp add: stt_fallback_def demo_stt_def normalize_durations_def normalize_seg_def
          needs_fill_def)
  have attempt: "stt_attempt ?senv key ''V1'' ''en'' True None w
      = (Inr (Some [\<lparr>text = ''hello'', start = 0, duration = Some 2\<rparr>]), w)" for key w
    unfolding stt_attempt_def Let_def stt_dispatch_def
    by (simp add: enabled backend whisper)
  have run: "transcript_with list_clock ?senv (\<lambda>videoId l dt w. (Inr (Some []), w))
       no_request ''V1'' ''en'' False True None False (empty_state [1000])
     = (Segments [\<lparr>text = ''hello'', start = 0, duration = Some 2\<rparr>],
        \<lparr>cache = [(''V1'', ''en'', False) \<mapsto>
                    (1000, [\<lparr>text = ''hello'', start = 0, duration = Some 2\<rparr>])],
         fail_cache = Map.empty, world = []\<rparr>)"
    by (simp add: transcript_with_def cache_get_def fail_cache_get_def empty_state_def
          truthy_def the_list_def upstream_fetch_def stt_or_cooldown_def attempt cache_set_def)
  have before: "cache_nonempty (empty_state [1000 :: real])"
    by (simp add: cache_nonempty_def empty_state_def)
  show ?thesis
    using transcript_never_empty [OF run, THEN conjunct2, THEN conjunct2, THEN conjunct1]
      before run
    by simp
qed


end
